theory Spec2Isabelle
  imports Complex_Main
begin

section \<open>Data model of \<open>visualkeras/layered.py\<close>\<close>

text \<open>
  Numbers. The parameters annotated \<open>int\<close> in the signature of \<open>layered_view\<close> are
  integers, the two scale factors are annotated \<open>float\<close>. Every quantity that the code
  computes with \<open>/\<close> or by multiplying with a scale factor is modelled as an exact
  rational: the development reasons about the arithmetic the code writes down, not about
  binary rounding.
\<close>

text \<open>
  Every \<open>raise\<close> of the function, and every exception the Python built-ins it calls
  raise on the inputs modelled here, is a value of this type.
  \<^item> \<open>DrawShapesValueError\<close>: the \<open>ValueError\<close> of line 51;
  \<^item> \<open>UnsupportedShape\<close>: the \<open>RuntimeError\<close> of lines 102 and 122;
  \<^item> \<open>UnsupportedOrientation\<close>: the \<open>ValueError\<close> of line 120;
  \<^item> \<open>UnexpectedSpacing\<close>: the \<open>RuntimeError\<close> of lines 245 and 269, with the layer index;
  \<^item> \<open>TypeError\<close>: \<open>None * scale\<close>, and \<open>max\<close> applied to one number;
  \<^item> \<open>IndexError\<close>: a list read out of range;
  \<^item> \<open>HelperError\<close>: an exception raised inside the helper \<open>self_multiply\<close>;
  \<^item> \<open>ImageSizeError\<close>: the \<open>ValueError\<close> with which \<open>Image.new\<close> of line 163 refuses
    a negative width or height.
\<close>

datatype error =
    DrawShapesValueError int
  | UnsupportedShape
  | UnsupportedOrientation string
  | UnexpectedSpacing nat
  | TypeError
  | IndexError
  | HelperError
  | ImageSizeError

text \<open>
  An exception ends the call: \<open>bind_err m f\<close> runs \<open>f\<close> on the value of \<open>m\<close>, or passes
  the error of \<open>m\<close> on.
\<close>

definition bind_err :: "error + 'a \<Rightarrow> ('a \<Rightarrow> error + 'b) \<Rightarrow> error + 'b" where
  "bind_err m f = (case m of Inl e \<Rightarrow> Inl e | Inr v \<Rightarrow> f v)"

text \<open>
  A Keras output shape is a tuple of dimensions, each an integer or \<open>None\<close>, or (for
  models that are not sequential) a list of such tuples.
\<close>

type_synonym dims = "int option list"

datatype shape = TupleShape dims | ListShape "dims list"

text \<open>
  A layer: \<open>type(layer)\<close> as the name of the class, \<open>layer.output_shape\<close>, and
  \<open>layer.spacing\<close>, which the code reads on spacing layers only.
\<close>

record layer =
  ltype :: string
  output_shape :: shape
  layer_spacing :: int

definition SpacingDummyLayer :: string where
  "SpacingDummyLayer = ''SpacingDummyLayer''"

text \<open>One value of \<open>color_map\<close>: a dict in which the code looks up \<open>'fill'\<close> and \<open>'outline'\<close>.\<close>

record color_entry =
  ce_fill :: "string option"
  ce_outline :: "string option"

text \<open>
  The keyword arguments of \<open>layered_view\<close> that the layout, the labels and the legend
  read. A \<open>None\<close> for \<open>type_ignore\<close>, \<open>index_ignore\<close> or \<open>color_map\<close> is the empty
  list or dict (lines 66 to 73).
\<close>

record config =
  min_z :: int
  min_xy :: int
  max_z :: int
  max_xy :: int
  scale_z :: rat
  scale_xy :: rat
  type_ignore :: "string list"
  index_ignore :: "int list"
  color_map :: "string \<rightharpoonup> color_entry"
  one_dim_orientation :: string
  draw_volume :: bool
  draw_reversed :: bool
  draw_shapes :: int
  padding :: int
  padding_left :: int
  padding_vertical :: int
  spacing :: int
  draw_funnel :: bool
  shade_step :: int
  legend :: bool

text \<open>
  What \<open>layered_view\<close> takes from \<open>utils.py\<close> and from the font, which are not part of
  \<open>layered.py\<close>, is a parameter of the model:
  \<^item> \<open>wheel0\<close> and \<open>get_color\<close>: the fresh \<open>ColorWheel()\<close> and its method, which may
    change the wheel;
  \<^item> \<open>self_multiply\<close>: the helper applied to \<open>shape[3:]\<close>, \<open>None\<close> when it raises;
  \<^item> \<open>text_height\<close>: \<open>font.getsize("Ag")[1]\<close>.
\<close>

record 'w env =
  wheel0 :: 'w
  get_color :: "'w \<Rightarrow> string \<Rightarrow> string \<times> 'w"
  self_multiply :: "dims \<Rightarrow> rat option"
  text_height :: int

record box =
  x1 :: rat
  y1 :: rat
  x2 :: rat
  y2 :: rat
  de :: rat
  fill :: string
  outline :: string
  shade :: int

section \<open>Shape resolution (lines 92 to 122)\<close>

text \<open>Lines 96 to 102: a tuple is taken as it is, a list of length one gives its element.\<close>

definition resolve_shape :: "shape \<Rightarrow> error + dims" where
  "resolve_shape s =
     (case s of
        TupleShape ds \<Rightarrow> Inr ds
      | ListShape ts \<Rightarrow> (if length ts = 1 then Inr (ts ! 0) else Inl UnsupportedShape))"

text \<open>\<open>shape[k] * scale\<close>: Python raises \<open>TypeError\<close> when the dimension is \<open>None\<close>.\<close>

definition mul_dim :: "int option \<Rightarrow> rat \<Rightarrow> error + rat" where
  "mul_dim d s = (case d of None \<Rightarrow> Inl TypeError | Some n \<Rightarrow> Inr (of_int n * s))"

text \<open>The call \<open>self_multiply(shape[3:])\<close> of line 107.\<close>

definition call_self_multiply :: "'w env \<Rightarrow> dims \<Rightarrow> error + rat" where
  "call_self_multiply env ds =
     (case self_multiply env ds of None \<Rightarrow> Inl HelperError | Some v \<Rightarrow> Inr v)"

text \<open>\<open>min(max(v, lo), hi)\<close>.\<close>

definition clamp :: "rat \<Rightarrow> int \<Rightarrow> int \<Rightarrow> rat" where
  "clamp v lo hi = min (max v (of_int lo)) (of_int hi)"

text \<open>
  \<open>max(z)\<close> of line 111: with one positional argument the built-in \<open>max\<close> iterates over
  it, and a number is not iterable, so the call raises \<open>TypeError\<close> whatever the number is.
\<close>

definition py_max_single :: "rat \<Rightarrow> error + rat" where
  "py_max_single z = Inl TypeError"

text \<open>
  Lines 92 to 122. The result is \<open>(x, y, z)\<close>. The branches are tried in the order of the
  source, and within a branch \<open>x\<close>, \<open>y\<close>, \<open>z\<close> are computed in that order, so the first
  failing one gives the error.
\<close>

definition box_size :: "'w env \<Rightarrow> config \<Rightarrow> layer \<Rightarrow> error + (rat \<times> rat \<times> rat)" where
  "box_size env cfg l =
     (let x = of_int (min_xy cfg); y = of_int (min_xy cfg); z = of_int (min_z cfg) in
      bind_err (resolve_shape (output_shape l)) (\<lambda>sh.
        if length sh \<ge> 4 then
          bind_err (mul_dim (sh ! 1) (scale_xy cfg)) (\<lambda>vx.
          bind_err (mul_dim (sh ! 2) (scale_xy cfg)) (\<lambda>vy.
          bind_err (call_self_multiply env (drop 3 sh)) (\<lambda>p.
            Inr (clamp vx (min_xy cfg) (max_xy cfg),
                 clamp vy (min_xy cfg) (max_xy cfg),
                 clamp (p * scale_z cfg) (min_z cfg) (max_z cfg)))))
        else if length sh = 3 then
          bind_err (mul_dim (sh ! 1) (scale_xy cfg)) (\<lambda>vx.
          bind_err (mul_dim (sh ! 2) (scale_xy cfg)) (\<lambda>vy.
          bind_err (py_max_single z) (\<lambda>m.
            Inr (clamp vx (min_xy cfg) (max_xy cfg),
                 clamp vy (min_xy cfg) (max_xy cfg),
                 min m (of_int (max_z cfg))))))
        else if length sh = 2 then
          (if one_dim_orientation cfg = ''x'' then
             bind_err (mul_dim (sh ! 1) (scale_xy cfg)) (\<lambda>v.
               Inr (clamp v (min_xy cfg) (max_xy cfg), y, z))
           else if one_dim_orientation cfg = ''y'' then
             bind_err (mul_dim (sh ! 1) (scale_xy cfg)) (\<lambda>v.
               Inr (x, clamp v (min_xy cfg) (max_xy cfg), z))
           else if one_dim_orientation cfg = ''z'' then
             bind_err (mul_dim (sh ! 1) (scale_z cfg)) (\<lambda>v.
               Inr (x, y, clamp v (min_z cfg) (max_z cfg)))
           else Inl (UnsupportedOrientation (one_dim_orientation cfg)))
        else Inl UnsupportedShape))"

section \<open>The layout loop (lines 55 to 157)\<close>

text \<open>
  The variables that the loop over \<open>enumerate(model.layers)\<close> updates. \<open>cmap\<close> is the
  caller's \<open>color_map\<close>, which line 143 writes to; \<open>wheel\<close> is the color wheel.
\<close>

record 'w lstate =
  boxes :: "box list"
  layer_y :: "rat list"
  wheel :: 'w
  current_z :: rat
  x_off :: rat
  layer_types :: "string list"
  img_height :: rat
  max_right :: rat
  cmap :: "string \<rightharpoonup> color_entry"

text \<open>Lines 55 to 73.\<close>

definition init_state :: "'w env \<Rightarrow> config \<Rightarrow> 'w lstate" where
  "init_state env cfg =
     \<lparr>boxes = [], layer_y = [], wheel = wheel0 env,
      current_z = of_int (padding cfg + padding_left cfg), x_off = -1,
      layer_types = [], img_height = 0, max_right = 0, cmap = color_map cfg\<rparr>"

text \<open>Line 78: \<open>type(layer) in type_ignore or index in index_ignore\<close>.\<close>

definition ignored :: "config \<Rightarrow> nat \<Rightarrow> layer \<Rightarrow> bool" where
  "ignored cfg index l \<longleftrightarrow> ltype l \<in> set (type_ignore cfg) \<or> int index \<in> set (index_ignore cfg)"

text \<open>Line 82: \<open>type(layer) == SpacingDummyLayer\<close>.\<close>

definition is_spacer :: "layer \<Rightarrow> bool" where
  "is_spacer l \<longleftrightarrow> ltype l = SpacingDummyLayer"

text \<open>
  The layers for which the loop reaches line 87 and builds a box: neither ignored nor a
  spacing layer. The two label loops skip the same layers (lines 241 and 308).
\<close>

definition visible :: "config \<Rightarrow> nat \<times> layer \<Rightarrow> bool" where
  "visible cfg p \<longleftrightarrow> \<not> ignored cfg (fst p) (snd p) \<and> \<not> is_spacer (snd p)"

text \<open>\<open>color_map.get(layer_type, {}).get(key, default)\<close> of lines 141, 142, 367 and 368.\<close>

definition lookup_color ::
  "(string \<rightharpoonup> color_entry) \<Rightarrow> string \<Rightarrow> (color_entry \<Rightarrow> string option) \<Rightarrow> string \<Rightarrow> string" where
  "lookup_color m t key dflt =
     (case m t of
        None \<Rightarrow> dflt
      | Some e \<Rightarrow> (case key e of None \<Rightarrow> dflt | Some c \<Rightarrow> c))"

text \<open>
  Lines 124 to 157: the box of a visible layer of size \<open>(x, y, z)\<close>, and the update of the
  bounds and of the cursor. \<open>get_color\<close> is called before the lookup, as Python evaluates
  the default argument of \<open>get\<close> first.
\<close>

definition place_box :: "'w env \<Rightarrow> config \<Rightarrow> layer \<Rightarrow> rat \<times> rat \<times> rat \<Rightarrow> 'w lstate \<Rightarrow> 'w lstate" where
  "place_box env cfg l sz st =
     (case sz of (x, y, z) \<Rightarrow>
      let d = (if draw_volume cfg then x / 3 else 0);
          xo = (if x_off st = -1 then d / 2 else x_off st);
          bx1 = current_z st - d / 2;
          by1 = d;
          bx2 = bx1 + z;
          by2 = by1 + y;
          cw = get_color env (wheel st) (ltype l);
          f = lookup_color (cmap st) (ltype l) ce_fill (fst cw);
          ol = lookup_color (cmap st) (ltype l) ce_outline ''black'';
          b = \<lparr>x1 = bx1, y1 = by1, x2 = bx2, y2 = by2, de = d,
               fill = f, outline = ol, shade = shade_step cfg\<rparr>;
          hh = by2 - (by1 - d)
      in st\<lparr>boxes := boxes st @ [b],
            layer_y := layer_y st @ [hh],
            wheel := snd cw,
            current_z := current_z st + (z + of_int (spacing cfg)),
            x_off := xo,
            img_height := (if hh > img_height st then hh else img_height st),
            max_right := (if bx2 + d > max_right st then bx2 + d else max_right st),
            cmap := (cmap st)(ltype l \<mapsto> \<lparr>ce_fill = Some f, ce_outline = Some ol\<rparr>)\<rparr>)"

text \<open>One iteration of the loop of line 75.\<close>

definition layout_step :: "'w env \<Rightarrow> config \<Rightarrow> nat \<times> layer \<Rightarrow> 'w lstate \<Rightarrow> error + 'w lstate" where
  "layout_step env cfg p st =
     (case p of (index, l) \<Rightarrow>
        if ignored cfg index l then Inr st
        else if is_spacer l then Inr (st\<lparr>current_z := current_z st + of_int (layer_spacing l)\<rparr>)
        else
          (let st1 = st\<lparr>layer_types :=
                          (if ltype l \<in> set (layer_types st) then layer_types st
                           else layer_types st @ [ltype l])\<rparr>
           in bind_err (box_size env cfg l) (\<lambda>sz. Inr (place_box env cfg l sz st1))))"

fun layout_loop :: "'w env \<Rightarrow> config \<Rightarrow> (nat \<times> layer) list \<Rightarrow> 'w lstate \<Rightarrow> error + 'w lstate" where
  "layout_loop env cfg [] st = Inr st"
| "layout_loop env cfg (p # ps) st =
     (case layout_step env cfg p st of
        Inl e \<Rightarrow> Inl e
      | Inr st' \<Rightarrow> layout_loop env cfg ps st')"

definition layout :: "'w env \<Rightarrow> config \<Rightarrow> layer list \<Rightarrow> error + 'w lstate" where
  "layout env cfg model = layout_loop env cfg (enumerate 0 model) (init_state env cfg)"

text \<open>
  The value of the cursor \<open>current_z\<close> before the loop and after each iteration that
  completes, in order. It is the same loop, recording the cursor instead of returning the
  last state.
\<close>

fun cursor_loop :: "'w env \<Rightarrow> config \<Rightarrow> (nat \<times> layer) list \<Rightarrow> 'w lstate \<Rightarrow> rat list" where
  "cursor_loop env cfg [] st = [current_z st]"
| "cursor_loop env cfg (p # ps) st =
     current_z st #
     (case layout_step env cfg p st of
        Inl e \<Rightarrow> []
      | Inr st' \<Rightarrow> cursor_loop env cfg ps st')"

definition cursor_trace :: "'w env \<Rightarrow> config \<Rightarrow> layer list \<Rightarrow> rat list" where
  "cursor_trace env cfg model = cursor_loop env cfg (enumerate 0 model) (init_state env cfg)"

section \<open>Canvas and centering (lines 159 to 173)\<close>

text \<open>
  Lines 167 to 173. \<open>h\<close> is \<open>img.height\<close>. The lists \<open>boxes\<close> and \<open>layer_y\<close> grow together
  in the layout loop, so \<open>layer_y[i]\<close> is the entry beside the box.
\<close>

definition center_box :: "int \<Rightarrow> rat \<Rightarrow> box \<times> rat \<Rightarrow> box" where
  "center_box h xo p =
     (case p of (node, ly) \<Rightarrow>
      let y_off = (of_int h - ly) / 2
      in node\<lparr>y1 := y1 node + y_off, y2 := y2 node + y_off,
              x1 := x1 node + xo, x2 := x2 node + xo\<rparr>)"

definition center_boxes :: "int \<Rightarrow> rat \<Rightarrow> box list \<Rightarrow> rat list \<Rightarrow> box list" where
  "center_boxes h xo bs lys = map (center_box h xo) (zip bs lys)"

section \<open>Shape labels (lines 232 to 333)\<close>

text \<open>\<open>str\<close> of an integer, in decimal.\<close>

fun str_nat :: "nat \<Rightarrow> string" where
  "str_nat n =
     (if n < 10 then [''0123456789'' ! n]
      else str_nat (n div 10) @ [''0123456789'' ! (n mod 10)])"

declare str_nat.simps [simp del]

definition str_int :: "int \<Rightarrow> string" where
  "str_int k = (if k < 0 then CHR ''-'' # str_nat (nat (- k)) else str_nat (nat k))"

text \<open>\<open>[x for x in xs if x is not None]\<close>.\<close>

fun drop_none :: "'a option list \<Rightarrow> 'a list" where
  "drop_none [] = []"
| "drop_none (None # xs) = drop_none xs"
| "drop_none (Some x # xs) = x # drop_none xs"

text \<open>
  The loop of lines 291 to 296 (and 326 to 331): after the entry at position \<open>ii\<close> comes
  \<open>"x"\<close> when \<open>ii < len - 2\<close>, that is when more than one entry follows, and a line break
  when \<open>ii == len - 2\<close>, that is when exactly one follows.
\<close>

fun join_dims :: "int list \<Rightarrow> string" where
  "join_dims [] = []"
| "join_dims (d # ds) =
     str_int d @
     (if length ds > 1 then ''x'' else if length ds = 1 then [CHR 0x0A] else []) @
     join_dims ds"

text \<open>
  Lines 286 to 296. \<open>output_shape[0]\<close> raises \<open>IndexError\<close> on an empty list; for a list
  of tuples the first tuple is taken.
\<close>

definition shape_text :: "shape \<Rightarrow> error + string" where
  "shape_text s =
     (case s of
        TupleShape ds \<Rightarrow>
          (if drop_none ds = [] then Inl IndexError else Inr (join_dims (drop_none ds)))
      | ListShape ts \<Rightarrow>
          (case ts of [] \<Rightarrow> Inl IndexError | t # _ \<Rightarrow> Inr (join_dims (drop_none t))))"

text \<open>
  \<open>xs[k]\<close> for an integer \<open>k\<close>: a negative index counts from the end, an index out of range
  raises. The position read is returned beside the element.
\<close>

definition py_nth :: "'a list \<Rightarrow> int \<Rightarrow> error + (nat \<times> 'a)" where
  "py_nth xs k =
     (let n = int (length xs); j = (if k < 0 then n + k else k)
      in if 0 \<le> j \<and> j < n then Inr (nat j, xs ! nat j) else Inl IndexError)"

text \<open>
  One call of \<open>draw_layer_shapes.text\<close>: the position and the text. \<open>anchor\<close> is the
  position in \<open>boxes\<close> of the box that the variable \<open>box\<close> held when \<open>text_x\<close> and
  \<open>text_y\<close> were computed.
\<close>

record label =
  anchor :: nat
  text_x :: rat
  text_y :: rat
  label_text :: string

text \<open>The test of lines 241 and 308.\<close>

definition delimiter :: "config \<Rightarrow> nat \<Rightarrow> layer \<Rightarrow> bool" where
  "delimiter cfg index l \<longleftrightarrow>
     ltype l \<in> set (type_ignore cfg) \<or> ltype l = SpacingDummyLayer \<or> int index \<in> set (index_ignore cfg)"

text \<open>
  Lines 242 to 258, for the counters \<open>(i, spacing_layer_index)\<close>: the anchor and the text
  position at a delimiter.
\<close>

definition delimiter_branch :: "config \<Rightarrow> box list \<Rightarrow> nat \<Rightarrow> int \<times> int \<Rightarrow> error + (nat \<times> rat \<times> rat)" where
  "delimiter_branch cfg bs index s =
     (case s of (i, sli) \<Rightarrow>
      let idx1 = sli; idx2 = i in
      if idx2 - idx1 \<le> 0 then Inl (UnexpectedSpacing index)
      else if (idx2 - idx1) mod 2 = 1 then
        (let idx = idx1 + \<lceil>(of_int (idx2 - idx1) :: rat) / 2\<rceil> in
         bind_err (py_nth bs idx) (\<lambda>kb.
           Inr (fst kb, x1 (snd kb) + (x2 (snd kb) - x1 (snd kb)) / 2, y2 (snd kb) + 20)))
      else
        (let idx = idx1 + (idx2 - idx1) div 2 in
         bind_err (py_nth bs idx) (\<lambda>kb.
           Inr (fst kb, x1 (snd kb) + (x2 (snd kb) - x1 (snd kb)) / 2 + of_int (spacing cfg),
                y2 (snd kb) + 20))))"

text \<open>
  Lines 266 to 280, at the last layer. The test of line 271 is \<open>idx2 - idx1 % 2 == 1\<close>,
  which Python reads as \<open>idx2 - (idx1 % 2) == 1\<close>; both branches compute \<open>idx\<close> and then
  read \<open>boxes[i]\<close>.
\<close>

definition end_branch :: "config \<Rightarrow> box list \<Rightarrow> nat \<Rightarrow> int \<times> int \<Rightarrow> error + (nat \<times> rat \<times> rat)" where
  "end_branch cfg bs index s =
     (case s of (i, sli) \<Rightarrow>
      let idx1 = sli; idx2 = i in
      if idx2 - idx1 \<le> 0 then Inl (UnexpectedSpacing index)
      else if idx2 - idx1 mod 2 = 1 then
        (let idx = idx1 + \<lceil>(of_int (idx2 - idx1) :: rat) / 2\<rceil> in
         bind_err (py_nth bs i) (\<lambda>kb.
           Inr (fst kb, x1 (snd kb) + (x2 (snd kb) - x1 (snd kb)) / 2, y2 (snd kb) + 20)))
      else
        (let idx = idx1 + (idx2 - idx1) div 2 in
         bind_err (py_nth bs i) (\<lambda>kb.
           Inr (fst kb, x1 (snd kb) + (x2 (snd kb) - x1 (snd kb)) / 2 + of_int (padding cfg),
                y2 (snd kb) + 20))))"

text \<open>Lines 283 to 299: the text is that of the layer of the current iteration.\<close>

definition draw_label :: "layer \<Rightarrow> (nat \<times> rat \<times> rat) option \<Rightarrow> error + label list" where
  "draw_label l pend =
     (case pend of
        None \<Rightarrow> Inr []
      | Some a \<Rightarrow>
          bind_err (shape_text (output_shape l)) (\<lambda>t.
            Inr [\<lparr>anchor = fst a, text_x = fst (snd a), text_y = snd (snd a), label_text = t\<rparr>]))"

text \<open>
  One iteration of the loop of line 238, for a model of \<open>n\<close> layers. The state is
  \<open>(i, spacing_layer_index)\<close>; the result is the new state and what the iteration draws.
\<close>

definition grouped_step ::
  "config \<Rightarrow> box list \<Rightarrow> nat \<Rightarrow> nat \<times> layer \<Rightarrow> int \<times> int \<Rightarrow> error + ((int \<times> int) \<times> label list)" where
  "grouped_step cfg bs n p s =
     (case p of (index, l) \<Rightarrow>
      bind_err
        (if delimiter cfg index l then
           bind_err (delimiter_branch cfg bs index s) (\<lambda>a. Inr ((fst s, fst s), Some a))
         else Inr ((fst s + 1, snd s), None)) (\<lambda>r.
      bind_err
        (if int index = int n - 1 then
           bind_err (end_branch cfg bs index (fst r)) (\<lambda>a. Inr (Some a))
         else Inr (snd r)) (\<lambda>pend.
      bind_err (draw_label l pend) (\<lambda>ls. Inr (fst r, ls)))))"

fun grouped_loop ::
  "config \<Rightarrow> box list \<Rightarrow> nat \<Rightarrow> (nat \<times> layer) list \<Rightarrow> int \<times> int \<Rightarrow> error + label list" where
  "grouped_loop cfg bs n [] s = Inr []"
| "grouped_loop cfg bs n (p # ps) s =
     (case grouped_step cfg bs n p s of
        Inl e \<Rightarrow> Inl e
      | Inr r \<Rightarrow>
          (case grouped_loop cfg bs n ps (fst r) of
             Inl e \<Rightarrow> Inl e
           | Inr rest \<Rightarrow> Inr (snd r @ rest)))"

text \<open>Lines 234 to 299.\<close>

definition grouped_labels :: "config \<Rightarrow> box list \<Rightarrow> layer list \<Rightarrow> error + label list" where
  "grouped_labels cfg bs model =
     grouped_loop cfg bs (length model) (enumerate 0 model) (- 1, - 1)"

text \<open>One iteration of the loop of line 306, for \<open>draw_shapes\<close> 1 or 2; the state is \<open>i\<close>.\<close>

definition box_label_step ::
  "config \<Rightarrow> box list \<Rightarrow> nat \<times> layer \<Rightarrow> int \<Rightarrow> error + (int \<times> label list)" where
  "box_label_step cfg bs p i =
     (case p of (index, l) \<Rightarrow>
      if delimiter cfg index l then Inr (i, [])
      else
        bind_err (py_nth bs (i + 1)) (\<lambda>kb.
          let b = snd kb;
              pos = (if draw_shapes cfg = 2 \<and> (i + 1) mod 2 = 1
                     then (x1 b - de b + (x2 b - x1 b) / 2, y1 b - de b - 20)
                     else (x1 b + (x2 b - x1 b) / 2, y2 b + 20))
          in bind_err (shape_text (output_shape l)) (\<lambda>t.
               Inr (i + 1, [\<lparr>anchor = fst kb, text_x = fst pos, text_y = snd pos, label_text = t\<rparr>]))))"

fun box_label_loop ::
  "config \<Rightarrow> box list \<Rightarrow> (nat \<times> layer) list \<Rightarrow> int \<Rightarrow> error + label list" where
  "box_label_loop cfg bs [] i = Inr []"
| "box_label_loop cfg bs (p # ps) i =
     (case box_label_step cfg bs p i of
        Inl e \<Rightarrow> Inl e
      | Inr r \<Rightarrow>
          (case box_label_loop cfg bs ps (fst r) of
             Inl e \<Rightarrow> Inl e
           | Inr rest \<Rightarrow> Inr (snd r @ rest)))"

definition box_labels :: "config \<Rightarrow> box list \<Rightarrow> layer list \<Rightarrow> error + label list" where
  "box_labels cfg bs model = box_label_loop cfg bs (enumerate 0 model) (- 1)"

section \<open>Legend (lines 336 to 382)\<close>

text \<open>
  Lines 343 to 368: for every entry of \<open>layer_types\<close>, its name and the box drawn as its
  swatch.
\<close>

definition legend_patches ::
  "'w env \<Rightarrow> config \<Rightarrow> string list \<Rightarrow> (string \<rightharpoonup> color_entry) \<Rightarrow> (string \<times> box) list" where
  "legend_patches env cfg lts cm =
     (let cube_size = text_height env;
          d = (if draw_volume cfg then cube_size div 2 else 0)
      in map (\<lambda>t. (t, \<lparr>x1 = of_int cube_size, y1 = of_int d,
                        x2 = of_int (cube_size + cube_size), y2 = of_int (d + cube_size),
                        de = of_int d,
                        fill = lookup_color cm t ce_fill ''#000000'',
                        outline = lookup_color cm t ce_outline ''#000000'',
                        shade = shade_step cfg\<rparr>)) lts)"

section \<open>\<open>layered_view\<close>\<close>

text \<open>
  What a call that returns has produced: the size of the canvas created at line 163, the
  boxes after the centering pass, the shape labels drawn, and, when the legend is
  requested, its swatches (the legend strip is then put below the canvas by
  \<open>vertical_image_concat\<close>, which is not part of \<open>layered.py\<close>). The pixels that the
  drawing calls of lines 175 to 230 set, and the optional write to a file, are not
  modelled: they change neither the boxes nor the size of the canvas.
\<close>

text \<open>
  \<open>Image.new('RGBA', (w, h), background_fill)\<close> of line 163. Pillow checks the size
  first and raises \<open>ValueError\<close> (\<open>Width and height must be >= 0\<close>) when a side is
  negative; otherwise the image has that size.
\<close>

definition image_new :: "int \<Rightarrow> int \<Rightarrow> error + (int \<times> int)" where
  "image_new w h = (if w < 0 \<or> h < 0 then Inl ImageSizeError else Inr (w, h))"

record image =
  width :: int
  height :: int
  drawn_boxes :: "box list"
  labels :: "label list"
  legend_strip :: "(string \<times> box) list option"

definition layered_view :: "'w env \<Rightarrow> config \<Rightarrow> layer list \<Rightarrow> error + image" where
  "layered_view env cfg model =
     (if draw_shapes cfg < 0 \<or> draw_shapes cfg > 3 then Inl (DrawShapesValueError (draw_shapes cfg))
      else
        bind_err (layout env cfg model) (\<lambda>st.
        bind_err (image_new \<lceil>max_right st + x_off st + of_int (padding cfg)\<rceil>
                            \<lceil>img_height st + of_int (padding_vertical cfg)\<rceil>) (\<lambda>sz.
          let bs = center_boxes (snd sz) (x_off st) (boxes st) (layer_y st)
          in bind_err
               (if draw_shapes cfg = 3 then grouped_labels cfg bs model
                else if draw_shapes cfg = 1 \<or> draw_shapes cfg = 2 then box_labels cfg bs model
                else Inr []) (\<lambda>ls.
               Inr \<lparr>width = fst sz, height = snd sz, drawn_boxes = bs, labels = ls,
                    legend_strip =
                      (if legend cfg
                       then Some (legend_patches env cfg (layer_types st) (cmap st))
                       else None)\<rparr>))))"

section \<open>Concrete inputs\<close>

text \<open>The default values of the keyword arguments (lines 8 to 16).\<close>

definition default_config :: config where
  "default_config =
     \<lparr>min_z = 20, min_xy = 20, max_z = 400, max_xy = 2000,
      scale_z = 1 / 10, scale_xy = 4,
      type_ignore = [], index_ignore = [], color_map = Map.empty,
      one_dim_orientation = ''z'',
      draw_volume = True, draw_reversed = False, draw_shapes = 0,
      padding = 10, padding_left = 0, padding_vertical = 10, spacing = 10,
      draw_funnel = True, shade_step = 10, legend = False\<rparr>"

text \<open>
  An instance of the parameters, for the examples: a wheel that cycles through two
  colours by the number of calls made, the product of the known dimensions for
  \<open>self_multiply\<close>, and a text height of 10 pixels.
\<close>

definition example_env :: "nat env" where
  "example_env =
     \<lparr>wheel0 = 0,
      get_color = (\<lambda>w t. (if even w then ''#ffd166'' else ''#ef476f'', Suc w)),
      self_multiply = (\<lambda>ds. Some (of_int (prod_list (drop_none ds)))),
      text_height = 10\<rparr>"

definition dense :: "int \<Rightarrow> layer" where
  "dense n = \<lparr>ltype = ''Dense'', output_shape = TupleShape [None, Some n], layer_spacing = 0\<rparr>"

definition conv2d :: "int \<Rightarrow> int \<Rightarrow> int \<Rightarrow> layer" where
  "conv2d a b c =
     \<lparr>ltype = ''Conv2D'', output_shape = TupleShape [None, Some a, Some b, Some c],
      layer_spacing = 0\<rparr>"

text \<open>A spacing layer with the given \<open>spacing\<close> attribute and output shape.\<close>

definition spacer :: "int \<Rightarrow> dims \<Rightarrow> layer" where
  "spacer k ds = \<lparr>ltype = SpacingDummyLayer, output_shape = TupleShape ds, layer_spacing = k\<rparr>"

text \<open>A layer with an output shape of three entries, as a one-dimensional convolution has.\<close>

definition conv1d :: "int \<Rightarrow> int \<Rightarrow> layer" where
  "conv1d a b =
     \<lparr>ltype = ''Conv1D'', output_shape = TupleShape [None, Some a, Some b], layer_spacing = 0\<rparr>"

section \<open>Measures used in the statements\<close>

text \<open>The least and the greatest entry of a list, \<open>None\<close> for the empty list.\<close>

fun minimum :: "rat list \<Rightarrow> rat option" where
  "minimum [] = None"
| "minimum (x # xs) = (case minimum xs of None \<Rightarrow> Some x | Some m \<Rightarrow> Some (min x m))"

fun maximum :: "rat list \<Rightarrow> rat option" where
  "maximum [] = None"
| "maximum (x # xs) = (case maximum xs of None \<Rightarrow> Some x | Some m \<Rightarrow> Some (max x m))"

text \<open>
  For a returned image: the least \<open>y1 - de\<close> over its boxes (the free space above the
  highest box), the greatest \<open>img_height - (y2 + de)\<close> over its boxes, and the least
  \<open>img_height - y2\<close> over its boxes (the free space below the lowest box). \<open>img_height\<close>
  is the height of the canvas, \<open>img.height\<close>.
\<close>

definition min_top_margin :: "error + image \<Rightarrow> rat option" where
  "min_top_margin r =
     (case r of Inl e \<Rightarrow> None
      | Inr img \<Rightarrow> minimum (map (\<lambda>b. y1 b - de b) (drawn_boxes img)))"

definition max_bottom_margin_less_de :: "error + image \<Rightarrow> rat option" where
  "max_bottom_margin_less_de r =
     (case r of Inl e \<Rightarrow> None
      | Inr img \<Rightarrow> maximum (map (\<lambda>b. of_int (height img) - (y2 b + de b)) (drawn_boxes img)))"

definition min_bottom_margin :: "error + image \<Rightarrow> rat option" where
  "min_bottom_margin r =
     (case r of Inl e \<Rightarrow> None
      | Inr img \<Rightarrow> minimum (map (\<lambda>b. of_int (height img) - y2 b) (drawn_boxes img)))"

text \<open>
  Every box is created with \<open>y1 = de\<close>, and the entry of \<open>layer_y\<close> beside it is
  \<open>y2 - (y1 - de)\<close> (lines 135, 139 and 147).
\<close>

definition rows_ok :: "'w lstate \<Rightarrow> bool" where
  "rows_ok st \<longleftrightarrow>
     length (layer_y st) = length (boxes st) \<and>
     (\<forall>p\<in>set (zip (boxes st) (layer_y st)).
        y1 (fst p) = de (fst p) \<and> snd p = y2 (fst p) - (y1 (fst p) - de (fst p)))"

text \<open>The layers of a model for which the layout builds a box, in order.\<close>

definition visible_layers :: "config \<Rightarrow> layer list \<Rightarrow> layer list" where
  "visible_layers cfg model = map snd (filter (visible cfg) (enumerate 0 model))"

text \<open>
  Width, height and depth of a box as drawn, and the same three numbers as lines 124 to
  139 derive them from the size resolved for a layer: \<open>x2 - x1 = z\<close>, \<open>y2 - y1 = y\<close>,
  and \<open>de = x / 3\<close> with volume, \<open>0\<close> without.
\<close>

definition box_footprint :: "box \<Rightarrow> rat \<times> rat \<times> rat" where
  "box_footprint b = (x2 b - x1 b, y2 b - y1 b, de b)"

definition layer_footprint :: "'w env \<Rightarrow> config \<Rightarrow> layer \<Rightarrow> error + (rat \<times> rat \<times> rat)" where
  "layer_footprint env cfg l =
     bind_err (box_size env cfg l) (\<lambda>sz.
       Inr (snd (snd sz), fst (snd sz), if draw_volume cfg then fst sz / 3 else 0))"

text \<open>
  The boxes built so far belong to the layers \<open>seen\<close>, one each and in order, and the
  colours of each box are the ones recorded in \<open>color_map\<close> for the type of its layer,
  which is in \<open>layer_types\<close>.
\<close>

definition colors_recorded :: "'w lstate \<Rightarrow> layer list \<Rightarrow> bool" where
  "colors_recorded st seen \<longleftrightarrow>
     length (boxes st) = length seen \<and>
     (\<forall>q\<in>set (zip seen (boxes st)).
        cmap st (ltype (fst q)) =
          Some \<lparr>ce_fill = Some (fill (snd q)), ce_outline = Some (outline (snd q))\<rparr> \<and>
        ltype (fst q) \<in> set (layer_types st))"

text \<open>
  The layers at which the loop of line 238 sets \<open>draw_text\<close>: the delimiters (line 241)
  and the last layer (line 265), in order.
\<close>

definition label_sources :: "config \<Rightarrow> layer list \<Rightarrow> layer list" where
  "label_sources cfg model =
     map snd (filter (\<lambda>p. delimiter cfg (fst p) (snd p) \<or> int (fst p) = int (length model) - 1)
                (enumerate 0 model))"




section \<open>Shape resolution: properties\<close>

lemma bind_err_Inl [simp]: "bind_err (Inl e) f = Inl e"
  by (simp add: bind_err_def)

lemma bind_err_Inr [simp]: "bind_err (Inr v) f = f v"
  by (simp add: bind_err_def)

lemma bind_err_eq_Inr: "bind_err m f = Inr y \<longleftrightarrow> (\<exists>v. m = Inr v \<and> f v = Inr y)"
  by (cases m) simp_all

lemma bind_err_eq_Inl: "bind_err m f = Inl e \<longleftrightarrow> m = Inl e \<or> (\<exists>v. m = Inr v \<and> f v = Inl e)"
  by (cases m) simp_all

lemma box_size_rank3:
  assumes "resolve_shape (output_shape l) = Inr sh" and "length sh = 3"
  shows "box_size env cfg l = Inl TypeError"
proof -
  have m: "\<And>d s. mul_dim d s = Inl TypeError \<or> (\<exists>v. mul_dim d s = Inr v)"
    by (simp add: mul_dim_def split: option.splits)
  from m [of "sh ! 1" "scale_xy cfg"] m [of "sh ! 2" "scale_xy cfg"] assms
  show ?thesis
    by (auto simp: box_size_def py_max_single_def)
qed

text \<open>
  C4. The claim is that a layer in the rank-3 rule gets the depth \<open>min_z\<close>. The code
  does not get that far: line 111 calls \<open>max\<close> on the single number \<open>z\<close>, which raises
  \<open>TypeError\<close>, so no size is resolved and the call of \<open>layered_view\<close> fails. Shown here
  on a layer of output shape \<open>(None, 28, 28)\<close> with the default arguments.
\<close>

theorem rank3_layer_raises:
  "box_size example_env default_config (conv1d 28 28) = Inl TypeError \<and>
   layered_view example_env default_config [conv1d 28 28] = Inl TypeError"
proof -
  have r: "resolve_shape (output_shape (conv1d 28 28)) = Inr [None, Some 28, Some 28]"
    by (simp add: resolve_shape_def conv1d_def)
  have b: "box_size example_env default_config (conv1d 28 28) = Inl TypeError"
    by (rule box_size_rank3 [OF r]) simp
  have v: "\<not> ignored default_config 0 (conv1d 28 28)" "\<not> is_spacer (conv1d 28 28)"
    by (simp_all add: ignored_def is_spacer_def default_config_def conv1d_def SpacingDummyLayer_def)
  have "layout example_env default_config [conv1d 28 28] = Inl TypeError"
    using b v by (simp add: layout_def enumerate_eq_zip layout_step_def Let_def)
  moreover have "\<not> (draw_shapes default_config < 0 \<or> draw_shapes default_config > 3)"
    by (simp add: default_config_def)
  ultimately show ?thesis
    using b by (simp add: layered_view_def)
qed

text \<open>
  C3, as the code has it. For a layer in the rank-2 rule the resolved size is the pair of
  minimums in the two dimensions that \<open>one_dim_orientation\<close> does not select, and in the
  selected one the scaled second entry of the shape, raised to the minimum and capped at
  the maximum; so at most one dimension differs from its minimum. With one of these three
  orientations a second entry \<open>None\<close> raises \<open>TypeError\<close>. An
  orientation other than \<open>x\<close>, \<open>y\<close>, \<open>z\<close> raises the \<open>ValueError\<close> of line 120.
\<close>

theorem rank2_size:
  assumes "resolve_shape (output_shape l) = Inr sh" and "length sh = 2"
  shows "(one_dim_orientation cfg = ''x'' \<longrightarrow>
            box_size env cfg l =
              (case sh ! 1 of
                 None \<Rightarrow> Inl TypeError
               | Some n \<Rightarrow> Inr (clamp (of_int n * scale_xy cfg) (min_xy cfg) (max_xy cfg),
                                 of_int (min_xy cfg), of_int (min_z cfg)))) \<and>
         (one_dim_orientation cfg = ''y'' \<longrightarrow>
            box_size env cfg l =
              (case sh ! 1 of
                 None \<Rightarrow> Inl TypeError
               | Some n \<Rightarrow> Inr (of_int (min_xy cfg),
                                 clamp (of_int n * scale_xy cfg) (min_xy cfg) (max_xy cfg),
                                 of_int (min_z cfg)))) \<and>
         (one_dim_orientation cfg = ''z'' \<longrightarrow>
            box_size env cfg l =
              (case sh ! 1 of
                 None \<Rightarrow> Inl TypeError
               | Some n \<Rightarrow> Inr (of_int (min_xy cfg), of_int (min_xy cfg),
                                 clamp (of_int n * scale_z cfg) (min_z cfg) (max_z cfg)))) \<and>
         (one_dim_orientation cfg \<notin> {''x'', ''y'', ''z''} \<longrightarrow>
            box_size env cfg l = Inl (UnsupportedOrientation (one_dim_orientation cfg)))"
  using assms by (simp add: box_size_def mul_dim_def split: option.splits)

theorem rank2_size_witness:
  "resolve_shape (output_shape (dense 128)) = Inr [None, Some 128] \<and>
   box_size example_env (default_config\<lparr>one_dim_orientation := ''y''\<rparr>) (dense 128) =
     Inr (20, 512, 20) \<and>
   box_size example_env (default_config\<lparr>scale_z := 1\<rparr>) (dense 128) = Inr (20, 20, 128) \<and>
   box_size example_env (default_config\<lparr>one_dim_orientation := ''x''\<rparr>) (dense 128) =
     Inr (512, 20, 20) \<and>
   box_size example_env (default_config\<lparr>one_dim_orientation := ''w''\<rparr>) (dense 128) =
     Inl (UnsupportedOrientation ''w'')"
proof -
  have r: "resolve_shape (output_shape (dense 128)) = Inr [None, Some 128]"
    by (simp add: resolve_shape_def dense_def)
  have l: "length [None, Some (128::int)] = 2"
    by simp
  show ?thesis
    using r
      rank2_size [OF r l, of "default_config\<lparr>one_dim_orientation := ''y''\<rparr>" example_env]
      rank2_size [OF r l, of "default_config\<lparr>scale_z := 1\<rparr>" example_env]
      rank2_size [OF r l, of "default_config\<lparr>one_dim_orientation := ''x''\<rparr>" example_env]
      rank2_size [OF r l, of "default_config\<lparr>one_dim_orientation := ''w''\<rparr>" example_env]
    by (simp add: default_config_def clamp_def)
qed

text \<open>
  C3 as stated fails: with the default arguments a layer of output shape \<open>(None, 10)\<close> is
  in the rank-2 rule, and its scaled entry \<open>10 * 0.1\<close> is below \<open>min_z\<close>, so all three
  resolved dimensions equal their minimums and none differs.
\<close>

theorem rank2_no_dimension_differs:
  "resolve_shape (output_shape (dense 10)) = Inr [None, Some 10] \<and>
   box_size example_env default_config (dense 10) =
     Inr (of_int (min_xy default_config), of_int (min_xy default_config),
          of_int (min_z default_config))"
  by (simp add: box_size_def resolve_shape_def dense_def default_config_def mul_dim_def clamp_def)

section \<open>The layout loop: properties\<close>

lemma visible_iff_not_delimiter: "visible cfg (k, l) \<longleftrightarrow> \<not> delimiter cfg k l"
  by (auto simp: visible_def delimiter_def ignored_def is_spacer_def)

lemma layout_step_invisible:
  assumes "\<not> visible cfg p"
  shows "\<exists>c. layout_step env cfg p st = Inr (st\<lparr>current_z := c\<rparr>)"
proof (cases p)
  case (Pair k l)
  show ?thesis
  proof (cases "ignored cfg k l")
    case True
    then have "layout_step env cfg p st = Inr (st\<lparr>current_z := current_z st\<rparr>)"
      using Pair by (simp add: layout_step_def)
    then show ?thesis by blast
  next
    case False
    then have "is_spacer l" using assms Pair by (simp add: visible_def)
    then have "layout_step env cfg p st =
                 Inr (st\<lparr>current_z := current_z st + of_int (layer_spacing l)\<rparr>)"
      using False Pair by (simp add: layout_step_def)
    then show ?thesis by blast
  qed
qed

lemma layout_step_visible:
  assumes "visible cfg p"
  shows "layout_step env cfg p st =
           bind_err (box_size env cfg (snd p)) (\<lambda>sz. Inr (place_box env cfg (snd p) sz
             (st\<lparr>layer_types := (if ltype (snd p) \<in> set (layer_types st) then layer_types st
                                   else layer_types st @ [ltype (snd p)])\<rparr>)))"
  using assms by (cases p) (simp add: layout_step_def visible_def Let_def)

lemma layout_loop_invisible:
  assumes "\<forall>p\<in>set ps. \<not> visible cfg p"
  shows "\<exists>c. layout_loop env cfg ps st = Inr (st\<lparr>current_z := c\<rparr>)"
  using assms
proof (induction ps arbitrary: st)
  case Nil
  have "layout_loop env cfg [] st = Inr (st\<lparr>current_z := current_z st\<rparr>)" by simp
  then show ?case by blast
next
  case (Cons p ps)
  from Cons.prems obtain c where c: "layout_step env cfg p st = Inr (st\<lparr>current_z := c\<rparr>)"
    using layout_step_invisible [of cfg p env st] by auto
  from Cons.prems Cons.IH [of "st\<lparr>current_z := c\<rparr>"]
  obtain c' where "layout_loop env cfg ps (st\<lparr>current_z := c\<rparr>) = Inr (st\<lparr>current_z := c, current_z := c'\<rparr>)"
    by auto
  with c show ?case by auto
qed

lemma box_label_loop_invisible:
  assumes "\<forall>p\<in>set ps. \<not> visible cfg p"
  shows "box_label_loop cfg bs ps i = Inr []"
  using assms
proof (induction ps arbitrary: i)
  case Nil
  then show ?case by simp
next
  case (Cons p ps)
  obtain k l where p: "p = (k, l)" by (cases p)
  with Cons.prems have "delimiter cfg k l" by (simp add: visible_iff_not_delimiter)
  then have "box_label_step cfg bs p i = Inr (i, [])" using p by (simp add: box_label_step_def)
  with Cons show ?case by simp
qed

text \<open>
  C10, as the code has it. When no layer is visible, \<open>draw_shapes\<close> is 0, 1 or 2 and the
  legend is off, the layout loop leaves \<open>x_off\<close> at its initial \<open>-1\<close> and \<open>max_right\<close> and
  \<open>img_height\<close> at their initial \<open>0\<close>, so the canvas is asked for with the width
  \<open>ceil(0 + (-1) + padding)\<close>, which for the integer \<open>padding\<close> is \<open>padding - 1\<close>, and the
  height \<open>padding_vertical\<close>. When \<open>padding\<close> is at least 1 and \<open>padding_vertical\<close> is not
  negative, \<open>layered_view\<close> returns an image of that size with no box and no label;
  otherwise \<open>Image.new\<close> raises and no image is returned.
\<close>

theorem no_visible_layer_image:
  assumes "\<forall>p\<in>set (enumerate 0 model). \<not> visible cfg p"
    and "draw_shapes cfg \<in> {0, 1, 2}"
    and "\<not> legend cfg"
  shows "layered_view env cfg model =
           (if 1 \<le> padding cfg \<and> 0 \<le> padding_vertical cfg
            then Inr \<lparr>width = \<lceil>(of_int (padding cfg) :: rat) - 1\<rceil>,
                      height = padding_vertical cfg,
                      drawn_boxes = [], labels = [], legend_strip = None\<rparr>
            else Inl ImageSizeError) \<and>
         \<lceil>(of_int (padding cfg) :: rat) - 1\<rceil> = padding cfg - 1"
proof -
  from layout_loop_invisible [OF assms(1), of env "init_state env cfg"]
  obtain c where l: "layout env cfg model = Inr ((init_state env cfg)\<lparr>current_z := c\<rparr>)"
    by (auto simp: layout_def)
  have lab: "box_labels cfg [] model = Inr []"
    using box_label_loop_invisible [OF assms(1)] by (simp add: box_labels_def)
  have ds: "\<not> (draw_shapes cfg < 0 \<or> draw_shapes cfg > 3)" "draw_shapes cfg \<noteq> 3"
    using assms(2) by auto
  have w: "\<lceil>(of_int (padding cfg) :: rat) - 1\<rceil> = padding cfg - 1"
    by (simp add: ceiling_diff_one)
  let ?st = "(init_state env cfg)\<lparr>current_z := c\<rparr>"
  have W: "\<lceil>max_right ?st + x_off ?st + of_int (padding cfg)\<rceil> = padding cfg - 1"
  proof -
    have "max_right ?st + x_off ?st + of_int (padding cfg) = (of_int (padding cfg - 1) :: rat)"
      by (simp add: init_state_def)
    then show ?thesis
      by (simp only: ceiling_of_int)
  qed
  have H: "\<lceil>img_height ?st + of_int (padding_vertical cfg)\<rceil> = padding_vertical cfg"
    by (simp add: init_state_def)
  have B: "center_boxes h (x_off ?st) (boxes ?st) (layer_y ?st) = []" for h
    by (simp add: center_boxes_def init_state_def)
  have v: "layered_view env cfg model =
             bind_err (image_new (padding cfg - 1) (padding_vertical cfg)) (\<lambda>sz.
               Inr \<lparr>width = fst sz, height = snd sz, drawn_boxes = [], labels = [],
                    legend_strip = None\<rparr>)"
    unfolding layered_view_def l bind_err_Inr W H B Let_def
    using lab ds assms(3) by auto
  show ?thesis
    unfolding v w by (auto simp: image_new_def)
qed

theorem no_visible_layer_image_witness:
  "draw_shapes (default_config\<lparr>type_ignore := [''Dense'']\<rparr>) \<in> {0, 1, 2} \<and>
   \<not> legend (default_config\<lparr>type_ignore := [''Dense'']\<rparr>) \<and>
   layered_view example_env (default_config\<lparr>type_ignore := [''Dense'']\<rparr>)
     [spacer 50 [None, Some 10], dense 10] =
     Inr \<lparr>width = 9, height = 10, drawn_boxes = [], labels = [], legend_strip = None\<rparr> \<and>
   layered_view example_env (default_config\<lparr>type_ignore := [''Dense''], padding_vertical := - 1\<rparr>)
     [spacer 50 [None, Some 10], dense 10] = Inl ImageSizeError"
proof -
  let ?cfg = "default_config\<lparr>type_ignore := [''Dense'']\<rparr>"
  let ?cfg' = "default_config\<lparr>type_ignore := [''Dense''], padding_vertical := - 1\<rparr>"
  let ?m = "[spacer 50 [None, Some 10], dense 10]"
  have h1: "\<forall>p\<in>set (enumerate 0 ?m). \<not> visible ?cfg p"
    by (simp add: enumerate_eq_zip upt_rec visible_def ignored_def is_spacer_def spacer_def dense_def
        default_config_def)
  have h2: "draw_shapes ?cfg \<in> {0, 1, 2}"
    by (simp add: default_config_def)
  have h3: "\<not> legend ?cfg"
    by (simp add: default_config_def)
  have h1': "\<forall>p\<in>set (enumerate 0 ?m). \<not> visible ?cfg' p"
    by (simp add: enumerate_eq_zip upt_rec visible_def ignored_def is_spacer_def spacer_def dense_def
        default_config_def)
  have h2': "draw_shapes ?cfg' \<in> {0, 1, 2}"
    by (simp add: default_config_def)
  have h3': "\<not> legend ?cfg'"
    by (simp add: default_config_def)
  show ?thesis
    using h2 h3 no_visible_layer_image [OF h1 h2 h3, of example_env]
      no_visible_layer_image [OF h1' h2' h3', of example_env]
    by (simp add: default_config_def)
qed

text \<open>
  C10 as stated fails for a \<open>padding\<close> below 1: with \<open>padding = 0\<close> and a model of one
  spacing layer the canvas is asked for with the width \<open>-1\<close>, \<open>Image.new\<close> raises, and
  \<open>layered_view\<close> returns no image.
\<close>

theorem no_visible_layer_no_image:
  "draw_shapes (default_config\<lparr>padding := 0\<rparr>) = 0 \<and>
   \<not> legend (default_config\<lparr>padding := 0\<rparr>) \<and>
   \<not> visible (default_config\<lparr>padding := 0\<rparr>) (0, spacer 50 [None, Some 10]) \<and>
   layered_view example_env (default_config\<lparr>padding := 0\<rparr>) [spacer 50 [None, Some 10]] =
     Inl ImageSizeError"
  by code_simp

lemma box_size_not_draw_shapes_error: "box_size env cfg l \<noteq> Inl (DrawShapesValueError d)"
  by (auto simp: box_size_def bind_err_eq_Inl resolve_shape_def mul_dim_def call_self_multiply_def
      py_max_single_def Let_def split: shape.splits option.splits if_splits)

lemma layout_step_not_draw_shapes_error: "layout_step env cfg p st \<noteq> Inl (DrawShapesValueError d)"
  by (cases p) (auto simp: layout_step_def Let_def bind_err_eq_Inl box_size_not_draw_shapes_error)

lemma layout_loop_not_draw_shapes_error: "layout_loop env cfg ps st \<noteq> Inl (DrawShapesValueError d)"
  by (induction ps arbitrary: st) (auto simp: layout_step_not_draw_shapes_error split: sum.splits)

lemma py_nth_error: "py_nth xs k = Inl e \<Longrightarrow> e = IndexError"
  by (auto simp: py_nth_def Let_def split: if_splits)

lemma shape_text_error: "shape_text s = Inl e \<Longrightarrow> e = IndexError"
  by (auto simp: shape_text_def split: shape.splits list.splits if_splits)

lemma delimiter_branch_error:
  "delimiter_branch cfg bs k s = Inl e \<Longrightarrow> e = UnexpectedSpacing k \<or> e = IndexError"
  by (cases s) (auto simp: delimiter_branch_def Let_def bind_err_eq_Inl split: if_splits dest: py_nth_error)

lemma end_branch_error:
  "end_branch cfg bs k s = Inl e \<Longrightarrow> e = UnexpectedSpacing k \<or> e = IndexError"
  by (cases s) (auto simp: end_branch_def Let_def bind_err_eq_Inl split: if_splits dest: py_nth_error)

lemma draw_label_error: "draw_label l pend = Inl e \<Longrightarrow> e = IndexError"
  by (auto simp: draw_label_def bind_err_eq_Inl split: option.splits dest: shape_text_error)

lemma grouped_step_error:
  "grouped_step cfg bs n (k, l) s = Inl e \<Longrightarrow> e = UnexpectedSpacing k \<or> e = IndexError"
  by (auto simp: grouped_step_def bind_err_eq_Inl split: if_splits
      dest: delimiter_branch_error end_branch_error draw_label_error)

lemma grouped_loop_error:
  "grouped_loop cfg bs n ps s = Inl e \<Longrightarrow> (\<exists>k. e = UnexpectedSpacing k) \<or> e = IndexError"
proof (induction ps arbitrary: s)
  case Nil
  then show ?case by simp
next
  case (Cons p ps)
  obtain k l where p: "p = (k, l)" by (cases p)
  from Cons.prems Cons.IH grouped_step_error [of cfg bs n k l s] p
  show ?case by (auto split: sum.splits)
qed

lemma box_label_step_error: "box_label_step cfg bs p i = Inl e \<Longrightarrow> e = IndexError"
  by (cases p) (auto simp: box_label_step_def Let_def bind_err_eq_Inl split: if_splits
      dest: py_nth_error shape_text_error)

lemma box_label_loop_error: "box_label_loop cfg bs ps i = Inl e \<Longrightarrow> e = IndexError"
proof (induction ps arbitrary: i)
  case Nil
  then show ?case by simp
next
  case (Cons p ps)
  from Cons.prems Cons.IH box_label_step_error [of cfg bs p i]
  show ?case by (auto split: sum.splits)
qed

text \<open>
  C7. A value of \<open>draw_shapes\<close> below 0 or above 3 makes \<open>layered_view\<close> raise the
  \<open>ValueError\<close> of line 51 whatever the model and the other arguments are, also for a
  model on which the layout itself would raise: the check comes before any other work and
  no image is created. For a value from 0 to 3 that error is never the result.
\<close>

theorem draw_shapes_checked_first:
  "(draw_shapes cfg < 0 \<or> 3 < draw_shapes cfg \<longrightarrow>
      layered_view env cfg model = Inl (DrawShapesValueError (draw_shapes cfg))) \<and>
   (0 \<le> draw_shapes cfg \<and> draw_shapes cfg \<le> 3 \<longrightarrow>
      layered_view env cfg model \<noteq> Inl (DrawShapesValueError d))"
proof (intro conjI impI)
  assume "draw_shapes cfg < 0 \<or> 3 < draw_shapes cfg"
  then show "layered_view env cfg model = Inl (DrawShapesValueError (draw_shapes cfg))"
    by (simp add: layered_view_def)
next
  assume r: "0 \<le> draw_shapes cfg \<and> draw_shapes cfg \<le> 3"
  show "layered_view env cfg model \<noteq> Inl (DrawShapesValueError d)"
  proof
    assume a: "layered_view env cfg model = Inl (DrawShapesValueError d)"
    from r have n: "\<not> (draw_shapes cfg < 0 \<or> draw_shapes cfg > 3)" by simp
    from a n layout_loop_not_draw_shapes_error [of env cfg "enumerate 0 model" "init_state env cfg" d]
    obtain st bs where
      "(if draw_shapes cfg = 3 then grouped_labels cfg bs model
        else if draw_shapes cfg = 1 \<or> draw_shapes cfg = 2 then box_labels cfg bs model
        else Inr []) = Inl (DrawShapesValueError d)"
      by (auto simp: layered_view_def layout_def bind_err_eq_Inl Let_def image_new_def
          split: if_splits)
    then show False
      using grouped_loop_error [of cfg bs "length model" "enumerate 0 model" "(- 1, - 1)" "DrawShapesValueError d"]
        box_label_loop_error [of cfg bs "enumerate 0 model" "- 1" "DrawShapesValueError d"]
      by (auto simp: grouped_labels_def box_labels_def split: if_splits)
  qed
qed

theorem draw_shapes_checked_first_witness:
  "layered_view example_env (default_config\<lparr>draw_shapes := 4\<rparr>) [conv1d 28 28] =
     Inl (DrawShapesValueError 4) \<and>
   layered_view example_env (default_config\<lparr>draw_shapes := - 1\<rparr>) [conv1d 28 28] =
     Inl (DrawShapesValueError (- 1)) \<and>
   layered_view example_env (default_config\<lparr>draw_shapes := 2\<rparr>) [dense 10] \<noteq>
     Inl (DrawShapesValueError 2)"
  using draw_shapes_checked_first [of "default_config\<lparr>draw_shapes := 4\<rparr>" example_env "[conv1d 28 28]"]
    draw_shapes_checked_first [of "default_config\<lparr>draw_shapes := - 1\<rparr>" example_env "[conv1d 28 28]"]
    draw_shapes_checked_first [of "default_config\<lparr>draw_shapes := 2\<rparr>" example_env "[dense 10]" 2]
  by (simp add: default_config_def)

text \<open>
  An invariant of the layout loop is a property of the state that every completed
  iteration keeps.
\<close>

lemma layout_loop_invariant:
  assumes "layout_loop env cfg ps st = Inr st'"
    and "P st"
    and "\<And>p s s'. P s \<Longrightarrow> layout_step env cfg p s = Inr s' \<Longrightarrow> P s'"
  shows "P st'"
  using assms(1,2)
proof (induction ps arbitrary: st)
  case Nil
  then show ?case by simp
next
  case (Cons p ps)
  then obtain s1 where s1: "layout_step env cfg p st = Inr s1" "layout_loop env cfg ps s1 = Inr st'"
    by (auto split: sum.splits)
  from assms(3) [OF Cons.prems(2) s1(1)] have "P s1" .
  with Cons.IH s1(2) show ?case by blast
qed

lemma rows_ok_place_box:
  assumes "rows_ok st"
  shows "rows_ok (place_box env cfg l sz st)"
  using assms by (cases sz) (auto simp: rows_ok_def place_box_def Let_def)

lemma rows_ok_step:
  assumes "rows_ok s" and "layout_step env cfg p s = Inr s'"
  shows "rows_ok s'"
proof (cases "visible cfg p")
  case True
  have "rows_ok (s\<lparr>layer_types := ts\<rparr>)" for ts
    using assms(1) by (simp add: rows_ok_def)
  with assms(2) True show ?thesis
    by (auto simp: layout_step_visible bind_err_eq_Inr intro: rows_ok_place_box)
next
  case False
  from layout_step_invisible [OF False, of env s] assms show ?thesis
    by (auto simp: rows_ok_def)
qed

lemma rows_ok_layout:
  assumes "layout env cfg model = Inr st"
  shows "rows_ok st"
proof (rule layout_loop_invariant [where P = rows_ok])
  show "layout_loop env cfg (enumerate 0 model) (init_state env cfg) = Inr st"
    using assms by (simp add: layout_def)
  show "rows_ok (init_state env cfg)"
    by (simp add: rows_ok_def init_state_def)
qed (rule rows_ok_step)

lemma center_box_balanced:
  assumes "y1 b = de b" and "ly = y2 b - (y1 b - de b)"
  shows "y1 (center_box h xo (b, ly)) - de (center_box h xo (b, ly)) =
         of_int h - y2 (center_box h xo (b, ly))"
  using assms by (simp add: center_box_def Let_def field_simps)

lemma centered_boxes_balanced:
  assumes "rows_ok st" and "b \<in> set (center_boxes h xo (boxes st) (layer_y st))"
  shows "y1 b - de b = of_int h - y2 b"
proof -
  from assms(2) obtain p where p: "p \<in> set (zip (boxes st) (layer_y st))" "b = center_box h xo p"
    by (auto simp: center_boxes_def)
  with assms(1) have "y1 (fst p) = de (fst p)" "snd p = y2 (fst p) - (y1 (fst p) - de (fst p))"
    by (auto simp: rows_ok_def)
  from center_box_balanced [OF this, of h xo] p(2) show ?thesis by simp
qed

lemma layered_view_Inr:
  assumes "layered_view env cfg model = Inr img"
  obtains st where "layout env cfg model = Inr st"
    and "height img = \<lceil>img_height st + of_int (padding_vertical cfg)\<rceil>"
    and "width img = \<lceil>max_right st + x_off st + of_int (padding cfg)\<rceil>"
    and "0 \<le> width img" and "0 \<le> height img"
    and "drawn_boxes img = center_boxes (height img) (x_off st) (boxes st) (layer_y st)"
    and "(if draw_shapes cfg = 3 then grouped_labels cfg (drawn_boxes img) model
          else if draw_shapes cfg = 1 \<or> draw_shapes cfg = 2 then box_labels cfg (drawn_boxes img) model
          else Inr []) = Inr (labels img)"
    and "legend_strip img =
           (if legend cfg then Some (legend_patches env cfg (layer_types st) (cmap st)) else None)"
  using assms
  by (auto simp: layered_view_def bind_err_eq_Inr Let_def image_new_def split: if_splits)


text \<open>
  C2, as the code has it. The centering pass puts every box in the middle of the canvas:
  for each box the space above its extruded top, \<open>y1 - de\<close>, and the space below its
  front face, \<open>img_height - y2\<close>, are the same number. So the least \<open>y1 - de\<close> over the
  boxes and the least \<open>img_height - y2\<close> over the boxes are the same number. The equality
  is one of the exact arithmetic of the model; the code computes \<open>x / 3\<close> and the offsets
  in floating point, where the two sides agree up to rounding, the tolerance that the
  claim allows.
\<close>

theorem boxes_vertically_centered:
  assumes "layered_view env cfg model = Inr img"
  shows "(\<forall>b\<in>set (drawn_boxes img). y1 b - de b = of_int (height img) - y2 b) \<and>
         min_top_margin (Inr img) = min_bottom_margin (Inr img)"
proof -
  from assms obtain st where st: "layout env cfg model = Inr st"
    and bs: "drawn_boxes img = center_boxes (height img) (x_off st) (boxes st) (layer_y st)"
    by (rule layered_view_Inr)
  have each: "\<forall>b\<in>set (drawn_boxes img). y1 b - de b = of_int (height img) - y2 b"
    using centered_boxes_balanced [OF rows_ok_layout [OF st]] bs by auto
  then have "map (\<lambda>b. y1 b - de b) (drawn_boxes img) =
             map (\<lambda>b. of_int (height img) - y2 b) (drawn_boxes img)"
    by simp
  then have "minimum (map (\<lambda>b. y1 b - de b) (drawn_boxes img)) =
             minimum (map (\<lambda>b. of_int (height img) - y2 b) (drawn_boxes img))"
    by (rule arg_cong)
  with each show ?thesis
    unfolding min_top_margin_def min_bottom_margin_def by simp
qed

theorem boxes_vertically_centered_witness:
  "min_top_margin (layered_view example_env default_config [conv2d 100 100 3, dense 10]) =
     Some (16 / 3) \<and>
   min_bottom_margin (layered_view example_env default_config [conv2d 100 100 3, dense 10]) =
     Some (16 / 3)"
proof -
  let ?r = "layered_view example_env default_config [conv2d 100 100 3, dense 10]"
  have "\<not> isl ?r"
    by code_simp
  then obtain img where e: "?r = Inr img"
    by (cases ?r) auto
  have t: "min_top_margin ?r = Some (16 / 3)"
    by code_simp
  from boxes_vertically_centered [OF e] e t show ?thesis
    by simp
qed

text \<open>
  C2 as stated fails in both of its parts. With the default arguments and one layer of
  output shape \<open>(None, 100, 100, 3)\<close> the least \<open>y1 - de\<close> is \<open>16/3\<close> and the greatest
  \<open>img_height - (y2 + de)\<close> is \<open>-128\<close>: they differ by the depth of the box. Without
  volume (all \<open>de\<close> are 0) and with a second, lower layer the least \<open>y1 - de\<close> is 5 and
  the greatest \<open>img_height - (y2 + de)\<close> is 195: the least is taken at the highest box and
  the greatest at the lowest.
\<close>

theorem margins_not_balanced:
  "min_top_margin (layered_view example_env default_config [conv2d 100 100 3]) = Some (16 / 3) \<and>
   max_bottom_margin_less_de (layered_view example_env default_config [conv2d 100 100 3]) =
     Some (- 128) \<and>
   min_top_margin (layered_view example_env (default_config\<lparr>draw_volume := False\<rparr>)
     [conv2d 100 100 3, dense 10]) = Some 5 \<and>
   max_bottom_margin_less_de (layered_view example_env (default_config\<lparr>draw_volume := False\<rparr>)
     [conv2d 100 100 3, dense 10]) = Some 195"
  by code_simp

lemma place_box_boxes:
  "\<exists>b. boxes (place_box env cfg l (x, y, z) st) = boxes st @ [b] \<and>
       box_footprint b = (z, y, if draw_volume cfg then x / 3 else 0)"
  by (simp add: place_box_def Let_def box_footprint_def)

lemma place_box_current_z:
  "current_z (place_box env cfg l (x, y, z) st) = current_z st + (z + of_int (spacing cfg))"
  by (simp add: place_box_def Let_def)

lemma layout_step_boxes:
  assumes "layout_step env cfg p st = Inr st'"
  shows "map (\<lambda>b. Inr (box_footprint b)) (boxes st') =
         map (\<lambda>b. Inr (box_footprint b)) (boxes st) @
         map (layer_footprint env cfg) (map snd (filter (visible cfg) [p]))"
proof (cases "visible cfg p")
  case False
  from layout_step_invisible [OF False, of env st] assms False show ?thesis by auto
next
  case True
  from assms True obtain x y z where sz: "box_size env cfg (snd p) = Inr (x, y, z)"
    and st': "st' = place_box env cfg (snd p) (x, y, z)
                (st\<lparr>layer_types := (if ltype (snd p) \<in> set (layer_types st) then layer_types st
                                      else layer_types st @ [ltype (snd p)])\<rparr>)"
    by (auto simp: layout_step_visible bind_err_eq_Inr)
  from place_box_boxes [of env cfg "snd p" x y z] st'
  obtain b where "boxes st' = boxes st @ [b]"
    "box_footprint b = (z, y, if draw_volume cfg then x / 3 else 0)"
    by (metis (no_types, lifting) lstate.select_convs(1) lstate.surjective lstate.update_convs(6))
  with sz True show ?thesis
    by (simp add: layer_footprint_def)
qed

lemma layout_loop_boxes:
  assumes "layout_loop env cfg ps st = Inr st'"
  shows "map (\<lambda>b. Inr (box_footprint b)) (boxes st') =
         map (\<lambda>b. Inr (box_footprint b)) (boxes st) @
         map (layer_footprint env cfg) (map snd (filter (visible cfg) ps))"
  using assms
proof (induction ps arbitrary: st)
  case Nil
  then show ?case by simp
next
  case (Cons p ps)
  then obtain s1 where s1: "layout_step env cfg p st = Inr s1" "layout_loop env cfg ps s1 = Inr st'"
    by (auto split: sum.splits)
  from layout_step_boxes [OF s1(1)] Cons.IH [OF s1(2)] show ?case
    by simp
qed

lemma clamp_lower: "of_int (min lo hi) \<le> clamp v lo hi"
  by (simp add: clamp_def min_def max_def)

lemma box_size_depth_cases:
  assumes "box_size env cfg l = Inr (x, y, z)"
  shows "z = of_int (min_z cfg) \<or> (\<exists>v. z = clamp v (min_z cfg) (max_z cfg))"
  using assms
  by (auto simp: box_size_def Let_def bind_err_eq_Inr py_max_single_def split: if_splits)

lemma box_size_depth_lower:
  assumes "box_size env cfg l = Inr (x, y, z)"
  shows "of_int (min (min_z cfg) (max_z cfg)) \<le> z"
proof -
  have m: "(of_int (min (min_z cfg) (max_z cfg)) :: rat) \<le> of_int (min_z cfg)"
    by simp
  from box_size_depth_cases [OF assms] show ?thesis
  proof
    assume "z = of_int (min_z cfg)"
    with m show ?thesis by simp
  next
    assume "\<exists>v. z = clamp v (min_z cfg) (max_z cfg)"
    then obtain v where "z = clamp v (min_z cfg) (max_z cfg)" ..
    with clamp_lower [of "min_z cfg" "max_z cfg" v] show ?thesis by simp
  qed
qed

lemma layout_step_cursor:
  assumes "layout_step env cfg p st = Inr st'"
    and "\<not> ignored cfg (fst p) (snd p) \<and> is_spacer (snd p) \<longrightarrow> 0 \<le> layer_spacing (snd p)"
    and "0 \<le> min (min_z cfg) (max_z cfg) + spacing cfg"
  shows "current_z st \<le> current_z st'"
proof (cases "visible cfg p")
  case False
  obtain k l where p: "p = (k, l)" by (cases p)
  show ?thesis
  proof (cases "ignored cfg k l")
    case True
    with assms(1) p have "st' = st" by (simp add: layout_step_def)
    then show ?thesis by simp
  next
    case ni: False
    with False p have sp: "is_spacer l" by (simp add: visible_def)
    with ni assms(1) p have "current_z st' = current_z st + of_int (layer_spacing l)"
      by (auto simp: layout_step_def)
    moreover from assms(2) ni sp p have "(0::rat) \<le> of_int (layer_spacing l)" by simp
    ultimately show ?thesis by simp
  qed
next
  case True
  from assms(1) True obtain x y z where sz: "box_size env cfg (snd p) = Inr (x, y, z)"
    and st': "st' = place_box env cfg (snd p) (x, y, z)
                (st\<lparr>layer_types := (if ltype (snd p) \<in> set (layer_types st) then layer_types st
                                      else layer_types st @ [ltype (snd p)])\<rparr>)"
    by (auto simp: layout_step_visible bind_err_eq_Inr)
  from st' have c: "current_z st' = current_z st + (z + of_int (spacing cfg))"
    by (simp add: place_box_current_z)
  from assms(3) have "(0::rat) \<le> of_int (min (min_z cfg) (max_z cfg) + spacing cfg)"
    by (simp only: of_int_0_le_iff)
  then have "(0::rat) \<le> of_int (min (min_z cfg) (max_z cfg)) + of_int (spacing cfg)"
    by (simp only: of_int_add)
  with box_size_depth_lower [OF sz] have "0 \<le> z + of_int (spacing cfg)"
    by linarith
  with c show ?thesis by simp
qed

lemma cursor_loop_sorted:
  assumes "\<forall>p\<in>set ps. \<not> ignored cfg (fst p) (snd p) \<and> is_spacer (snd p) \<longrightarrow> 0 \<le> layer_spacing (snd p)"
    and "0 \<le> min (min_z cfg) (max_z cfg) + spacing cfg"
  shows "sorted (cursor_loop env cfg ps st) \<and> (\<forall>c\<in>set (cursor_loop env cfg ps st). current_z st \<le> c)"
  using assms(1)
proof (induction ps arbitrary: st)
  case Nil
  then show ?case by simp
next
  case (Cons p ps)
  show ?case
  proof (cases "layout_step env cfg p st")
    case (Inl e)
    then show ?thesis by simp
  next
    case (Inr s1)
    from Cons.prems have "\<not> ignored cfg (fst p) (snd p) \<and> is_spacer (snd p) \<longrightarrow> 0 \<le> layer_spacing (snd p)"
      by simp
    from layout_step_cursor [OF Inr this assms(2)] have le: "current_z st \<le> current_z s1" .
    from Cons.prems Cons.IH [of s1]
    have ih: "sorted (cursor_loop env cfg ps s1)" "\<forall>c\<in>set (cursor_loop env cfg ps s1). current_z s1 \<le> c"
      by auto
    have "cursor_loop env cfg (p # ps) st = current_z st # cursor_loop env cfg ps s1"
      using Inr by simp
    moreover have "\<forall>c\<in>set (cursor_loop env cfg ps s1). current_z st \<le> c"
      using ih(2) le by (meson order_trans)
    ultimately show ?thesis
      using ih(1) by simp
  qed
qed

lemma enumerate_snd_in_set: "p \<in> set (enumerate n xs) \<Longrightarrow> snd p \<in> set xs"
  by (cases p) (auto simp: in_set_enumerate_eq)

text \<open>
  C6, as the code has it. When the layout loop completes, it has built exactly one box
  per visible layer, in the order of the layers: the list of the boxes' widths, heights
  and depths is the list of the visible layers' resolved \<open>z\<close>, \<open>y\<close> and \<open>x / 3\<close> (or 0
  without volume). An ignored layer changes nothing. A spacing layer that is not ignored
  changes nothing but the cursor, to which it adds its own \<open>spacing\<close> attribute: a strict
  increase exactly when that attribute is positive. A visible layer whose size resolves to
  \<open>(x, y, z)\<close> adds one box and moves the cursor by \<open>z + spacing\<close>. So the cursor never
  decreases when no spacing layer has a negative \<open>spacing\<close> attribute and the least
  possible depth, \<open>min(min_z, max_z)\<close>, plus \<open>spacing\<close> is not negative.
\<close>

theorem layout_boxes_and_cursor:
  "(layout env cfg model = Inr st \<longrightarrow>
      length (boxes st) = length (visible_layers cfg model) \<and>
      map (\<lambda>b. Inr (box_footprint b)) (boxes st) =
        map (layer_footprint env cfg) (visible_layers cfg model)) \<and>
   (ignored cfg k l \<longrightarrow> layout_step env cfg (k, l) s = Inr s) \<and>
   (\<not> ignored cfg k l \<and> is_spacer l \<longrightarrow>
      layout_step env cfg (k, l) s = Inr (s\<lparr>current_z := current_z s + of_int (layer_spacing l)\<rparr>)) \<and>
   (visible cfg (k, l) \<and> box_size env cfg l = Inr (x, y, z) \<longrightarrow>
      (\<exists>s'. layout_step env cfg (k, l) s = Inr s' \<and>
            current_z s' = current_z s + (z + of_int (spacing cfg)) \<and>
            length (boxes s') = Suc (length (boxes s)))) \<and>
   ((\<forall>l\<in>set model. is_spacer l \<longrightarrow> 0 \<le> layer_spacing l) \<and>
    0 \<le> min (min_z cfg) (max_z cfg) + spacing cfg \<longrightarrow>
      sorted (cursor_trace env cfg model))"
proof (intro conjI impI)
  assume a: "layout env cfg model = Inr st"
  from layout_loop_boxes [of env cfg "enumerate 0 model" "init_state env cfg" st] a
  show m: "map (\<lambda>b. Inr (box_footprint b)) (boxes st) =
        map (layer_footprint env cfg) (visible_layers cfg model)"
    by (simp add: layout_def init_state_def visible_layers_def)
  from arg_cong [OF m, of length] show "length (boxes st) = length (visible_layers cfg model)"
    by simp
next
  assume "ignored cfg k l"
  then show "layout_step env cfg (k, l) s = Inr s"
    by (simp add: layout_step_def)
next
  assume "\<not> ignored cfg k l \<and> is_spacer l"
  then show "layout_step env cfg (k, l) s = Inr (s\<lparr>current_z := current_z s + of_int (layer_spacing l)\<rparr>)"
    by (simp add: layout_step_def)
next
  assume a: "visible cfg (k, l) \<and> box_size env cfg l = Inr (x, y, z)"
  let ?s1 = "s\<lparr>layer_types := (if ltype l \<in> set (layer_types s) then layer_types s
                                  else layer_types s @ [ltype l])\<rparr>"
  from a have "layout_step env cfg (k, l) s = Inr (place_box env cfg l (x, y, z) ?s1)"
    by (simp add: layout_step_visible)
  moreover have "current_z (place_box env cfg l (x, y, z) ?s1) =
                 current_z s + (z + of_int (spacing cfg))"
    by (simp add: place_box_current_z)
  moreover from place_box_boxes [of env cfg l x y z ?s1]
  have "length (boxes (place_box env cfg l (x, y, z) ?s1)) = Suc (length (boxes s))"
    by auto
  ultimately show "\<exists>s'. layout_step env cfg (k, l) s = Inr s' \<and>
            current_z s' = current_z s + (z + of_int (spacing cfg)) \<and>
            length (boxes s') = Suc (length (boxes s))"
    by blast
next
  assume a: "(\<forall>l\<in>set model. is_spacer l \<longrightarrow> 0 \<le> layer_spacing l) \<and>
    0 \<le> min (min_z cfg) (max_z cfg) + spacing cfg"
  then have "\<forall>p\<in>set (enumerate 0 model).
      \<not> ignored cfg (fst p) (snd p) \<and> is_spacer (snd p) \<longrightarrow> 0 \<le> layer_spacing (snd p)"
    using enumerate_snd_in_set by blast
  from cursor_loop_sorted [OF this, of env "init_state env cfg"] a
  show "sorted (cursor_trace env cfg model)"
    by (simp add: cursor_trace_def)
qed


theorem layout_boxes_and_cursor_witness:
  "\<not> isl (layout example_env default_config
            [conv2d 28 28 3, spacer 50 [None, Some 28, Some 28, Some 3], dense 10]) \<and>
   length (boxes (projr (layout example_env default_config
            [conv2d 28 28 3, spacer 50 [None, Some 28, Some 28, Some 3], dense 10]))) = 2 \<and>
   map (\<lambda>b. Inr (box_footprint b)) (boxes (projr (layout example_env default_config
            [conv2d 28 28 3, spacer 50 [None, Some 28, Some 28, Some 3], dense 10]))) =
     [Inr (20, 112, 112 / 3), Inr (20, 20, 20 / 3) :: error + rat \<times> rat \<times> rat] \<and>
   current_z (projr (layout_step example_env default_config
            (1, spacer 50 [None, Some 28, Some 28, Some 3])
            (init_state example_env default_config))) = 60 \<and>
   current_z (projr (layout_step example_env default_config (0, conv2d 28 28 3)
            (init_state example_env default_config))) = 40 \<and>
   length (boxes (projr (layout_step example_env default_config (0, conv2d 28 28 3)
            (init_state example_env default_config)))) = 1 \<and>
   layout_step example_env (default_config\<lparr>index_ignore := [0]\<rparr>) (0, conv2d 28 28 3)
            (init_state example_env default_config) =
     Inr (init_state example_env default_config) \<and>
   sorted (cursor_trace example_env default_config
            [conv2d 28 28 3, spacer 50 [None, Some 28, Some 28, Some 3], dense 10])"
proof -
  let ?m = "[conv2d 28 28 3, spacer 50 [None, Some 28, Some 28, Some 3], dense 10]"
  let ?sp = "spacer 50 [None, Some 28, Some 28, Some 3]"
  have n: "\<not> isl (layout example_env default_config ?m)"
    by code_simp
  then obtain st where e: "layout example_env default_config ?m = Inr st"
    by (cases "layout example_env default_config ?m") auto
  have v: "visible_layers default_config ?m = [conv2d 28 28 3, dense 10]"
    by code_simp
  have f: "map (layer_footprint example_env default_config) [conv2d 28 28 3, dense 10] =
             [Inr (20, 112, 112 / 3), Inr (20, 20, 20 / 3)]"
    by code_simp
  have h2: "\<not> ignored default_config 1 ?sp \<and> is_spacer ?sp"
    by code_simp
  have h3: "(\<forall>l\<in>set ?m. is_spacer l \<longrightarrow> 0 \<le> layer_spacing l) \<and>
            0 \<le> min (min_z default_config) (max_z default_config) + spacing default_config"
    by code_simp
  have ls: "layer_spacing ?sp = 50"
    by (simp add: spacer_def)
  have c0: "current_z (init_state example_env default_config) = 10"
    by (simp add: init_state_def default_config_def)
  note T = layout_boxes_and_cursor [of example_env default_config ?m st 1 ?sp
      "init_state example_env default_config"]
  note V = layout_boxes_and_cursor [of example_env default_config ?m st 0 "conv2d 28 28 3"
      "init_state example_env default_config" 112 112 20]
  note I = layout_boxes_and_cursor [of example_env "default_config\<lparr>index_ignore := [0]\<rparr>"
      ?m st 0 "conv2d 28 28 3" "init_state example_env default_config"]
  have h4: "visible default_config (0, conv2d 28 28 3) \<and>
            box_size example_env default_config (conv2d 28 28 3) = Inr (112, 112, 20)"
    by code_simp
  have h5: "ignored (default_config\<lparr>index_ignore := [0]\<rparr>) 0 (conv2d 28 28 3)"
    by code_simp
  have sp: "spacing default_config = 10"
    by (simp add: default_config_def)
  have b0: "boxes (init_state example_env default_config) = []"
    by (simp add: init_state_def)
  from V h4 obtain s' where s': "layout_step example_env default_config (0, conv2d 28 28 3)
      (init_state example_env default_config) = Inr s'"
    "current_z s' = current_z (init_state example_env default_config) +
                    (20 + of_int (spacing default_config))"
    "length (boxes s') = Suc (length (boxes (init_state example_env default_config)))"
    by blast
  have 4: "current_z (projr (layout_step example_env default_config (0, conv2d 28 28 3)
             (init_state example_env default_config))) = 40"
    unfolding s'(1) using s'(2) c0 sp by simp
  have 5: "length (boxes (projr (layout_step example_env default_config (0, conv2d 28 28 3)
             (init_state example_env default_config)))) = 1"
    unfolding s'(1) using s'(3) b0 by simp
  from I h5 have 6: "layout_step example_env (default_config\<lparr>index_ignore := [0]\<rparr>)
      (0, conv2d 28 28 3) (init_state example_env default_config) =
      Inr (init_state example_env default_config)"
    by blast
  from T e have a: "length (boxes st) = length (visible_layers default_config ?m)"
    and b: "map (\<lambda>b. Inr (box_footprint b)) (boxes st) =
            map (layer_footprint example_env default_config) (visible_layers default_config ?m)"
    by blast+
  from T h2 have c: "layout_step example_env default_config (1, ?sp)
      (init_state example_env default_config) =
      Inr ((init_state example_env default_config)
            \<lparr>current_z := current_z (init_state example_env default_config) +
                           of_int (layer_spacing ?sp)\<rparr>)"
    by blast
  from T h3 have d: "sorted (cursor_trace example_env default_config ?m)"
    by blast
  have p: "projr (layout example_env default_config ?m) = st"
    using e by simp
  have 1: "length (boxes (projr (layout example_env default_config ?m))) = 2"
    unfolding p using a v by simp
  have 2: "map (\<lambda>b. Inr (box_footprint b)) (boxes (projr (layout example_env default_config ?m))) =
           [Inr (20, 112, 112 / 3), Inr (20, 20, 20 / 3) :: error + rat \<times> rat \<times> rat]"
    unfolding p using b unfolding v f .
  have 3: "current_z (projr (layout_step example_env default_config (1, ?sp)
             (init_state example_env default_config))) = 60"
    unfolding c using ls c0 by simp
  show ?thesis
    using n 1 2 3 4 5 6 d by blast
qed

text \<open>
  C6 as stated fails where it speaks of the cursor. A spacing layer whose \<open>spacing\<close>
  attribute is 0 leaves the cursor where it is (40 before and after), one whose attribute
  is negative moves it back (from 40 to -10), and with a negative \<open>spacing\<close> argument a
  visible layer moves it back as well (from 10 to -70).
\<close>

theorem cursor_not_increasing:
  "cursor_trace example_env default_config [dense 10, spacer 0 [None, Some 10]] = [10, 40, 40] \<and>
   cursor_trace example_env default_config [dense 10, spacer (- 50) [None, Some 10]] =
     [10, 40, - 10] \<and>
   cursor_trace example_env (default_config\<lparr>spacing := - 100\<rparr>) [dense 10] = [10, - 70]"
  by code_simp

lemma place_box_colors:
  "\<exists>b. boxes (place_box env cfg l sz st) = boxes st @ [b] \<and>
       fill b = lookup_color (cmap st) (ltype l) ce_fill (fst (get_color env (wheel st) (ltype l))) \<and>
       outline b = lookup_color (cmap st) (ltype l) ce_outline ''black'' \<and>
       cmap (place_box env cfg l sz st) =
         (cmap st)(ltype l \<mapsto> \<lparr>ce_fill = Some (fill b), ce_outline = Some (outline b)\<rparr>) \<and>
       layer_types (place_box env cfg l sz st) = layer_types st"
  by (cases sz) (simp add: place_box_def Let_def)

lemma lookup_color_recorded:
  "m t = Some \<lparr>ce_fill = Some f, ce_outline = Some ol\<rparr> \<Longrightarrow>
     lookup_color m t ce_fill d = f \<and> lookup_color m t ce_outline d' = ol"
  by (simp add: lookup_color_def)

lemma colors_recorded_visible:
  assumes "colors_recorded st seen"
  shows "colors_recorded
           (place_box env cfg l sz
              (st\<lparr>layer_types := (if ltype l \<in> set (layer_types st) then layer_types st
                                    else layer_types st @ [ltype l])\<rparr>))
           (seen @ [l])"
proof -
  let ?st1 = "st\<lparr>layer_types := (if ltype l \<in> set (layer_types st) then layer_types st
                                    else layer_types st @ [ltype l])\<rparr>"
  let ?st2 = "place_box env cfg l sz ?st1"
  from place_box_colors [of env cfg l sz ?st1]
  obtain b where b: "boxes ?st2 = boxes st @ [b]"
    and fb: "fill b = lookup_color (cmap st) (ltype l) ce_fill (fst (get_color env (wheel st) (ltype l)))"
    and ob: "outline b = lookup_color (cmap st) (ltype l) ce_outline ''black''"
    and cm: "cmap ?st2 = (cmap st)(ltype l \<mapsto> \<lparr>ce_fill = Some (fill b), ce_outline = Some (outline b)\<rparr>)"
    and lt: "layer_types ?st2 = layer_types ?st1"
    by auto
  from assms have len: "length (boxes st) = length seen"
    by (simp add: colors_recorded_def)
  have tl: "ltype l \<in> set (layer_types ?st2)"
    using lt by simp
  have sub: "set (layer_types st) \<subseteq> set (layer_types ?st2)"
    using lt by auto
  have z: "zip (seen @ [l]) (boxes ?st2) = zip seen (boxes st) @ [(l, b)]"
    using b len by simp
  have old: "cmap ?st2 (ltype (fst q)) =
               Some \<lparr>ce_fill = Some (fill (snd q)), ce_outline = Some (outline (snd q))\<rparr> \<and>
             ltype (fst q) \<in> set (layer_types ?st2)"
    if q: "q \<in> set (zip seen (boxes st))" for q
  proof -
    from assms q have r: "cmap st (ltype (fst q)) =
        Some \<lparr>ce_fill = Some (fill (snd q)), ce_outline = Some (outline (snd q))\<rparr>"
      and t: "ltype (fst q) \<in> set (layer_types st)"
      by (auto simp: colors_recorded_def)
    show ?thesis
    proof (cases "ltype (fst q) = ltype l")
      case True
      with r lookup_color_recorded [of "cmap st" "ltype l" "fill (snd q)" "outline (snd q)"] fb ob
      have "fill b = fill (snd q)" "outline b = outline (snd q)"
        by auto
      with True cm tl show ?thesis by simp
    next
      case False
      with r cm t sub show ?thesis by auto
    qed
  qed
  have new: "cmap ?st2 (ltype l) = Some \<lparr>ce_fill = Some (fill b), ce_outline = Some (outline b)\<rparr>"
    using cm by simp
  show ?thesis
    unfolding colors_recorded_def z
    using b len old new tl by auto
qed

lemma colors_recorded_step:
  assumes "colors_recorded st seen" and "layout_step env cfg p st = Inr st'"
  shows "colors_recorded st' (seen @ map snd (filter (visible cfg) [p]))"
proof (cases "visible cfg p")
  case False
  have "colors_recorded (st\<lparr>current_z := c\<rparr>) seen" for c
    using assms(1) by (simp add: colors_recorded_def)
  with layout_step_invisible [OF False, of env st] assms(2) False show ?thesis
    by auto
next
  case True
  from assms(2) True obtain sz where "st' = place_box env cfg (snd p) sz
                (st\<lparr>layer_types := (if ltype (snd p) \<in> set (layer_types st) then layer_types st
                                      else layer_types st @ [ltype (snd p)])\<rparr>)"
    by (auto simp: layout_step_visible bind_err_eq_Inr)
  with colors_recorded_visible [OF assms(1), of env cfg "snd p" sz] True show ?thesis
    by simp
qed

lemma colors_recorded_loop:
  assumes "colors_recorded st seen" and "layout_loop env cfg ps st = Inr st'"
  shows "colors_recorded st' (seen @ map snd (filter (visible cfg) ps))"
  using assms
proof (induction ps arbitrary: st seen)
  case Nil
  then show ?case by simp
next
  case (Cons p ps)
  then obtain s1 where s1: "layout_step env cfg p st = Inr s1" "layout_loop env cfg ps s1 = Inr st'"
    by (auto split: sum.splits)
  from colors_recorded_step [OF Cons.prems(1) s1(1)]
  have "colors_recorded s1 (seen @ map snd (filter (visible cfg) [p]))" .
  from Cons.IH [OF this s1(2)] show ?case
    by (cases "visible cfg p") simp_all
qed

lemma colors_recorded_layout:
  assumes "layout env cfg model = Inr st"
  shows "colors_recorded st (visible_layers cfg model)"
proof -
  have "colors_recorded (init_state env cfg) []"
    by (simp add: colors_recorded_def init_state_def)
  from colors_recorded_loop [OF this, of env cfg "enumerate 0 model" st] assms
  show ?thesis
    by (simp add: layout_def visible_layers_def)
qed

lemma center_box_colors [simp]:
  "fill (center_box h xo p) = fill (fst p)" "outline (center_box h xo p) = outline (fst p)"
  by (cases p; simp add: center_box_def Let_def)+

lemma center_boxes_length:
  "length lys = length bs \<Longrightarrow> length (center_boxes h xo bs lys) = length bs"
  by (simp add: center_boxes_def)

lemma center_boxes_colors:
  assumes "length lys = length bs" and "i < length bs"
  shows "fill (center_boxes h xo bs lys ! i) = fill (bs ! i) \<and>
         outline (center_boxes h xo bs lys ! i) = outline (bs ! i)"
  using assms by (simp add: center_boxes_def)

lemma legend_patches_colors:
  assumes "(t, sw) \<in> set (legend_patches env cfg lts cm)"
  shows "fill sw = lookup_color cm t ce_fill ''#000000'' \<and>
         outline sw = lookup_color cm t ce_outline ''#000000''"
  using assms by (auto simp: legend_patches_def Let_def)

lemma legend_patches_present:
  assumes "t \<in> set lts"
  shows "\<exists>sw. (t, sw) \<in> set (legend_patches env cfg lts cm)"
  using assms by (force simp: legend_patches_def Let_def)

lemma colors_recorded_nth:
  assumes "colors_recorded st seen" and "i < length seen"
  shows "cmap st (ltype (seen ! i)) =
           Some \<lparr>ce_fill = Some (fill (boxes st ! i)), ce_outline = Some (outline (boxes st ! i))\<rparr> \<and>
         ltype (seen ! i) \<in> set (layer_types st)"
proof -
  from assms have "length (boxes st) = length seen" by (simp add: colors_recorded_def)
  with assms(2) have "(seen ! i, boxes st ! i) \<in> set (zip seen (boxes st))"
    by (metis in_set_zip fst_conv snd_conv)
  with assms(1) show ?thesis
    by (fastforce simp: colors_recorded_def)
qed

text \<open>
  C8. In an image that \<open>layered_view\<close> returns, the boxes are those of the visible layers
  in order, any two boxes whose layers have the same type have the same fill and the same
  outline, and, when the legend is drawn, it has a swatch for the type of every visible
  layer, and every swatch for such a type has the fill and the outline of that layer's
  box. This holds whatever the colour wheel returns and whatever the caller passed in
  \<open>color_map\<close>.
\<close>

theorem same_type_same_colors:
  assumes "layered_view env cfg model = Inr img"
  shows "length (drawn_boxes img) = length (visible_layers cfg model) \<and>
         (\<forall>i<length (drawn_boxes img). \<forall>j<length (drawn_boxes img).
            ltype (visible_layers cfg model ! i) = ltype (visible_layers cfg model ! j) \<longrightarrow>
            fill (drawn_boxes img ! i) = fill (drawn_boxes img ! j) \<and>
            outline (drawn_boxes img ! i) = outline (drawn_boxes img ! j)) \<and>
         (legend cfg \<longrightarrow>
            (\<exists>lg. legend_strip img = Some lg \<and>
               (\<forall>i<length (drawn_boxes img). \<exists>sw. (ltype (visible_layers cfg model ! i), sw) \<in> set lg) \<and>
               (\<forall>i<length (drawn_boxes img). \<forall>sw.
                  (ltype (visible_layers cfg model ! i), sw) \<in> set lg \<longrightarrow>
                  fill sw = fill (drawn_boxes img ! i) \<and>
                  outline sw = outline (drawn_boxes img ! i))))"
proof -
  let ?vl = "visible_layers cfg model"
  from assms obtain st where st: "layout env cfg model = Inr st"
    and bs: "drawn_boxes img = center_boxes (height img) (x_off st) (boxes st) (layer_y st)"
    and lg: "legend_strip img =
           (if legend cfg then Some (legend_patches env cfg (layer_types st) (cmap st)) else None)"
    by (rule layered_view_Inr)
  have cr: "colors_recorded st ?vl"
    by (rule colors_recorded_layout [OF st])
  then have len: "length (boxes st) = length ?vl"
    by (simp add: colors_recorded_def)
  have ly: "length (layer_y st) = length (boxes st)"
    using rows_ok_layout [OF st] by (simp add: rows_ok_def)
  have l1: "length (drawn_boxes img) = length ?vl"
    using center_boxes_length [OF ly] bs len by simp
  have key: "cmap st (ltype (?vl ! i)) =
               Some \<lparr>ce_fill = Some (fill (drawn_boxes img ! i)),
                     ce_outline = Some (outline (drawn_boxes img ! i))\<rparr> \<and>
             ltype (?vl ! i) \<in> set (layer_types st)"
    if "i < length (drawn_boxes img)" for i
  proof -
    from that l1 len have i: "i < length ?vl" "i < length (boxes st)" by simp_all
    from center_boxes_colors [OF ly i(2), of "height img" "x_off st"] bs
    have "fill (drawn_boxes img ! i) = fill (boxes st ! i)"
      "outline (drawn_boxes img ! i) = outline (boxes st ! i)"
      by simp_all
    with colors_recorded_nth [OF cr i(1)] show ?thesis by simp
  qed
  have same: "fill (drawn_boxes img ! i) = fill (drawn_boxes img ! j) \<and>
              outline (drawn_boxes img ! i) = outline (drawn_boxes img ! j)"
    if "i < length (drawn_boxes img)" "j < length (drawn_boxes img)"
      "ltype (?vl ! i) = ltype (?vl ! j)" for i j
    using key [OF that(1)] key [OF that(2)] that(3) by simp
  have leg: "\<exists>lg. legend_strip img = Some lg \<and>
               (\<forall>i<length (drawn_boxes img). \<exists>sw. (ltype (?vl ! i), sw) \<in> set lg) \<and>
               (\<forall>i<length (drawn_boxes img). \<forall>sw.
                  (ltype (?vl ! i), sw) \<in> set lg \<longrightarrow>
                  fill sw = fill (drawn_boxes img ! i) \<and>
                  outline sw = outline (drawn_boxes img ! i))"
    if "legend cfg"
  proof -
    let ?lg = "legend_patches env cfg (layer_types st) (cmap st)"
    have a: "legend_strip img = Some ?lg"
      using lg that by simp
    have b: "\<exists>sw. (ltype (?vl ! i), sw) \<in> set ?lg" if "i < length (drawn_boxes img)" for i
      using key [OF that] legend_patches_present by blast
    have c: "fill sw = fill (drawn_boxes img ! i) \<and> outline sw = outline (drawn_boxes img ! i)"
      if "i < length (drawn_boxes img)" "(ltype (?vl ! i), sw) \<in> set ?lg" for i sw
      using legend_patches_colors [OF that(2)] key [OF that(1)]
      by (simp add: lookup_color_def)
    from a b c show ?thesis
      by blast
  qed
  from l1 same leg show ?thesis
    by blast
qed


theorem same_type_same_colors_witness:
  "length (drawn_boxes (projr (layered_view example_env (default_config\<lparr>legend := True\<rparr>)
      [conv2d 28 28 3, dense 128, spacer 50 [None, Some 128], dense 10]))) = 3 \<and>
   fill (drawn_boxes (projr (layered_view example_env (default_config\<lparr>legend := True\<rparr>)
      [conv2d 28 28 3, dense 128, spacer 50 [None, Some 128], dense 10])) ! 1) =
   fill (drawn_boxes (projr (layered_view example_env (default_config\<lparr>legend := True\<rparr>)
      [conv2d 28 28 3, dense 128, spacer 50 [None, Some 128], dense 10])) ! 2) \<and>
   outline (drawn_boxes (projr (layered_view example_env (default_config\<lparr>legend := True\<rparr>)
      [conv2d 28 28 3, dense 128, spacer 50 [None, Some 128], dense 10])) ! 1) =
   outline (drawn_boxes (projr (layered_view example_env (default_config\<lparr>legend := True\<rparr>)
      [conv2d 28 28 3, dense 128, spacer 50 [None, Some 128], dense 10])) ! 2) \<and>
   map fill (drawn_boxes (projr (layered_view example_env (default_config\<lparr>legend := True\<rparr>)
      [conv2d 28 28 3, dense 128, spacer 50 [None, Some 128], dense 10]))) =
     [''#ffd166'', ''#ef476f'', ''#ef476f''] \<and>
   map (\<lambda>p. (fst p, fill (snd p), outline (snd p)))
     (the (legend_strip (projr (layered_view example_env (default_config\<lparr>legend := True\<rparr>)
      [conv2d 28 28 3, dense 128, spacer 50 [None, Some 128], dense 10])))) =
     [(''Conv2D'', ''#ffd166'', ''black''), (''Dense'', ''#ef476f'', ''black'')]"
proof -
  let ?cfg = "default_config\<lparr>legend := True\<rparr>"
  let ?m = "[conv2d 28 28 3, dense 128, spacer 50 [None, Some 128], dense 10]"
  let ?r = "layered_view example_env ?cfg ?m"
  have "\<not> isl ?r"
    by code_simp
  then obtain img where e: "?r = Inr img"
    by (cases ?r) auto
  then have p: "projr ?r = img"
    by simp
  note T = same_type_same_colors [OF e]
  have v: "visible_layers ?cfg ?m = [conv2d 28 28 3, dense 128, dense 10]"
    by code_simp
  from T v have l: "length (drawn_boxes img) = 3"
    by simp
  from T have S: "\<forall>i<length (drawn_boxes img). \<forall>j<length (drawn_boxes img).
            ltype (visible_layers ?cfg ?m ! i) = ltype (visible_layers ?cfg ?m ! j) \<longrightarrow>
            fill (drawn_boxes img ! i) = fill (drawn_boxes img ! j) \<and>
            outline (drawn_boxes img ! i) = outline (drawn_boxes img ! j)"
    by blast
  have ty: "ltype (visible_layers ?cfg ?m ! 1) = ltype (visible_layers ?cfg ?m ! 2)"
    unfolding v by (simp add: dense_def)
  from S [rule_format, of 1 2] l ty
  have c: "fill (drawn_boxes img ! 1) = fill (drawn_boxes img ! 2) \<and>
           outline (drawn_boxes img ! 1) = outline (drawn_boxes img ! 2)"
    by simp
  have f: "map fill (drawn_boxes (projr ?r)) = [''#ffd166'', ''#ef476f'', ''#ef476f'']"
    by code_simp
  have g: "map (\<lambda>p. (fst p, fill (snd p), outline (snd p))) (the (legend_strip (projr ?r))) =
     [(''Conv2D'', ''#ffd166'', ''black''), (''Dense'', ''#ef476f'', ''black'')]"
    by code_simp
  from l c f g show ?thesis
    unfolding p by blast
qed

section \<open>The grouped labels: properties\<close>

lemma draw_label_texts:
  assumes "draw_label l pend = Inr ls"
  shows "map (\<lambda>lb. Inr (label_text lb)) ls =
           (if pend = None then [] else [shape_text (output_shape l)])"
  using assms by (auto simp: draw_label_def bind_err_eq_Inr split: option.splits)

lemma grouped_step_texts:
  assumes "grouped_step cfg bs n (k, l) s = Inr r"
  shows "map (\<lambda>lb. Inr (label_text lb)) (snd r) =
           (if delimiter cfg k l \<or> int k = int n - 1 then [shape_text (output_shape l)] else [])"
proof -
  from assms obtain r1 pend ls where
    r1: "(if delimiter cfg k l then
           bind_err (delimiter_branch cfg bs k s) (\<lambda>a. Inr ((fst s, fst s), Some a))
         else Inr ((fst s + 1, snd s), None)) = Inr r1"
    and pend: "(if int k = int n - 1 then
           bind_err (end_branch cfg bs k (fst r1)) (\<lambda>a. Inr (Some a))
         else Inr (snd r1)) = Inr pend"
    and ls: "draw_label l pend = Inr ls" and r: "r = (fst r1, ls)"
    by (auto simp: grouped_step_def bind_err_eq_Inr)
  have "pend = None \<longleftrightarrow> \<not> (delimiter cfg k l \<or> int k = int n - 1)"
    using r1 pend by (auto simp: bind_err_eq_Inr split: if_splits)
  with draw_label_texts [OF ls] r show ?thesis
    by auto
qed

lemma grouped_loop_texts:
  assumes "grouped_loop cfg bs n ps s = Inr ls"
  shows "map (\<lambda>lb. Inr (label_text lb)) ls =
           map (\<lambda>p. shape_text (output_shape (snd p)))
             (filter (\<lambda>p. delimiter cfg (fst p) (snd p) \<or> int (fst p) = int n - 1) ps)"
  using assms
proof (induction ps arbitrary: s ls)
  case Nil
  then show ?case by simp
next
  case (Cons p ps)
  obtain k l where p: "p = (k, l)" by (cases p)
  from Cons.prems obtain r rest where r: "grouped_step cfg bs n p s = Inr r"
    and rest: "grouped_loop cfg bs n ps (fst r) = Inr rest" and ls: "ls = snd r @ rest"
    by (auto split: sum.splits)
  from grouped_step_texts [of cfg bs n k l s r] r p Cons.IH [OF rest] ls
  show ?case by simp
qed

lemma grouped_step_last_visible:
  assumes "grouped_step cfg bs n (k, l) s = Inr r" and "int k = int n - 1"
  shows "\<not> delimiter cfg k l"
proof
  assume d: "delimiter cfg k l"
  with assms obtain a where "end_branch cfg bs k (fst s, fst s) = Inr a"
    by (auto simp: grouped_step_def bind_err_eq_Inr)
  then show False
    by (simp add: end_branch_def)
qed

lemma grouped_loop_last_visible:
  assumes "grouped_loop cfg bs n ps s = Inr ls" and "(k, l) \<in> set ps" and "int k = int n - 1"
  shows "\<not> delimiter cfg k l"
  using assms(1,2)
proof (induction ps arbitrary: s ls)
  case Nil
  then show ?case by simp
next
  case (Cons p ps)
  from Cons.prems(1) obtain r rest where r: "grouped_step cfg bs n p s = Inr r"
    and rest: "grouped_loop cfg bs n ps (fst r) = Inr rest"
    by (auto split: sum.splits)
  show ?case
  proof (cases "p = (k, l)")
    case True
    with r grouped_step_last_visible [OF _ assms(3)] show ?thesis by blast
  next
    case False
    with Cons.prems(2) Cons.IH [OF rest] show ?thesis by simp
  qed
qed


text \<open>
  C9. With \<open>draw_shapes = 3\<close>, the texts of the labels of a returned image are, in order,
  the texts of the output shapes of the delimiter layers and of the last layer of the
  model: each label drawn at a delimiter carries the shape of that delimiter, whatever
  the layer of its anchor box is. The last layer is then a visible one, so only the label
  of the final segment carries the shape of a visible layer, the model's last.
\<close>

theorem grouped_label_text_source:
  assumes "layered_view env cfg model = Inr img" and "draw_shapes cfg = 3"
  shows "map (\<lambda>lb. Inr (label_text lb)) (labels img) =
           map (\<lambda>l. shape_text (output_shape l)) (label_sources cfg model) \<and>
         (model \<noteq> [] \<longrightarrow> \<not> delimiter cfg (length model - 1) (last model))"
proof -
  from assms obtain bs where g: "grouped_labels cfg bs model = Inr (labels img)"
    by (auto elim!: layered_view_Inr)
  then have l: "grouped_loop cfg bs (length model) (enumerate 0 model) (- 1, - 1) = Inr (labels img)"
    by (simp add: grouped_labels_def)
  from grouped_loop_texts [OF l]
  have 1: "map (\<lambda>lb. Inr (label_text lb)) (labels img) =
           map (\<lambda>l. shape_text (output_shape l)) (label_sources cfg model)"
    by (simp add: label_sources_def comp_def)
  have 2: "\<not> delimiter cfg (length model - 1) (last model)" if "model \<noteq> []"
  proof -
    from that have "(length model - 1, last model) \<in> set (enumerate 0 model)"
      by (simp add: in_set_enumerate_eq last_conv_nth)
    moreover from that have "int (length model - 1) = int (length model) - 1"
      by (cases model) simp_all
    ultimately show ?thesis
      using grouped_loop_last_visible [OF l] by blast
  qed
  from 1 2 show ?thesis by blast
qed

theorem grouped_label_text_source_witness:
  "map (\<lambda>lb. Inr (label_text lb) :: error + string)
     (labels (projr (layered_view example_env (default_config\<lparr>draw_shapes := 3\<rparr>)
        [conv2d 28 28 3, dense 128, spacer 50 [None, Some 7], dense 10]))) =
     [Inr ''7'', Inr ''10''] \<and>
   map anchor
     (labels (projr (layered_view example_env (default_config\<lparr>draw_shapes := 3\<rparr>)
        [conv2d 28 28 3, dense 128, spacer 50 [None, Some 7], dense 10]))) = [0, 2] \<and>
   shape_text (output_shape (conv2d 28 28 3)) = Inr (''28x28'' @ [CHR 0x0A] @ ''3'') \<and>
   \<not> delimiter (default_config\<lparr>draw_shapes := 3\<rparr>) 3 (dense 10)"
proof -
  let ?cfg = "default_config\<lparr>draw_shapes := 3\<rparr>"
  let ?m = "[conv2d 28 28 3, dense 128, spacer 50 [None, Some 7], dense 10]"
  let ?r = "layered_view example_env ?cfg ?m"
  have "\<not> isl ?r"
    by code_simp
  then obtain img where e: "?r = Inr img"
    by (cases ?r) auto
  then have p: "projr ?r = img"
    by simp
  have d: "draw_shapes ?cfg = 3"
    by simp
  note T = grouped_label_text_source [OF e d]
  have ls: "label_sources ?cfg ?m = [spacer 50 [None, Some 7], dense 10]"
    by code_simp
  have t: "map (\<lambda>l. shape_text (output_shape l)) [spacer 50 [None, Some 7], dense 10] =
           [Inr ''7'', Inr ''10'']"
    by code_simp
  from T have 1: "map (\<lambda>lb. Inr (label_text lb) :: error + string) (labels img) =
                  [Inr ''7'', Inr ''10'']"
    unfolding ls t by blast
  from T have 2: "\<not> delimiter ?cfg 3 (dense 10)"
    by (simp add: eval_nat_numeral)
  have 3: "map anchor (labels (projr ?r)) = [0, 2]"
    by code_simp
  have 4: "shape_text (output_shape (conv2d 28 28 3)) = Inr (''28x28'' @ [CHR 0x0A] @ ''3'')"
    by code_simp
  from 1 2 3 4 show ?thesis
    unfolding p by blast
qed

















lemma ceiling_half: "\<lceil>(of_int n :: rat) / 2\<rceil> = (n + 1) div 2"
proof -
  have "\<lceil>(of_int n :: rat) / of_int 2\<rceil> = - (- n div 2)"
    by (rule ceiling_divide_eq_div)
  then show ?thesis by simp
qed

text \<open>
  Where the two branches anchor the label of a segment. With \<open>n = i - spacing_layer_index\<close>
  boxes in the segment, the delimiter branch reads the box \<open>(n + 1) div 2\<close> places after
  \<open>spacing_layer_index\<close> when \<open>n\<close> is odd and \<open>n div 2\<close> places after it when \<open>n\<close> is
  even: the middle box, or the one before the middle. The branch for the end of the
  model reads \<open>boxes[i]\<close>, the last box of the segment, whatever \<open>n\<close> is.
\<close>

lemma delimiter_branch_anchor:
  assumes "delimiter_branch cfg bs k (i, sli) = Inr a" and "- 1 \<le> sli"
  shows "int (fst a) = sli + (if (i - sli) mod 2 = 1 then (i - sli + 1) div 2 else (i - sli) div 2)"
proof -
  from assms(1) have n: "1 \<le> i - sli"
    by (auto simp: delimiter_branch_def Let_def split: if_splits)
  show ?thesis
  proof (cases "(i - sli) mod 2 = 1")
    case True
    from n assms(2) have "0 \<le> sli + (i - sli + 1) div 2" by presburger
    with assms(1) True n show ?thesis
      by (auto simp: delimiter_branch_def Let_def ceiling_half py_nth_def bind_err_eq_Inr
          simp del: of_int_diff split: if_splits)
  next
    case False
    from n assms(2) False have "0 \<le> sli + (i - sli) div 2" by presburger
    with assms(1) False n show ?thesis
      by (auto simp: delimiter_branch_def Let_def py_nth_def bind_err_eq_Inr split: if_splits)
  qed
qed

lemma end_branch_anchor:
  assumes "end_branch cfg bs k (i, sli) = Inr a" and "- 1 \<le> sli"
  shows "int (fst a) = i"
proof -
  from assms have "0 \<le> i"
    by (auto simp: end_branch_def Let_def split: if_splits)
  with assms(1) show ?thesis
    by (auto simp: end_branch_def Let_def py_nth_def bind_err_eq_Inr split: if_splits)
qed

text \<open>
  C1. The claim holds for the segments that a delimiter ends, and fails for the final
  segment, which the end of the model ends: lines 273 and 278 read \<open>boxes[i]\<close> where the
  sibling lines 250 and 256 read \<open>boxes[idx]\<close>, so the label is anchored at the last box of
  the segment. For two visible layers the label is at box 1, not at box 0; for three, at
  box 2, not at box 1. The same runs of two and of three layers, when a spacing layer
  follows them, are labelled at box 0 and at box 1.
\<close>

theorem final_segment_anchor:
  "map anchor (labels (projr (layered_view example_env (default_config\<lparr>draw_shapes := 3\<rparr>)
      [conv2d 28 28 3, dense 128]))) = [1] \<and>
   map anchor (labels (projr (layered_view example_env (default_config\<lparr>draw_shapes := 3\<rparr>)
      [conv2d 28 28 3, dense 128, dense 10]))) = [2] \<and>
   map anchor (labels (projr (layered_view example_env (default_config\<lparr>draw_shapes := 3\<rparr>)
      [conv2d 28 28 3, dense 128, spacer 50 [None, Some 128], dense 10]))) = [0, 2] \<and>
   map anchor (labels (projr (layered_view example_env (default_config\<lparr>draw_shapes := 3\<rparr>)
      [conv2d 28 28 3, dense 128, dense 10, spacer 50 [None, Some 10], dense 10]))) = [1, 3] \<and>
   \<not> isl (layered_view example_env (default_config\<lparr>draw_shapes := 3\<rparr>)
      [conv2d 28 28 3, dense 128]) \<and>
   \<not> isl (layered_view example_env (default_config\<lparr>draw_shapes := 3\<rparr>)
      [conv2d 28 28 3, dense 128, dense 10])"
  by code_simp

end
